theory Spec2Isabelle
  imports Complex_Main "HOL-Library.Char_ord" "HOL-Library.List_Lexorder" "HOL-Library.Code_Target_Nat"
begin

section \<open>The TCP protocol (app/core/tcp/protocol.py)\<close>

text \<open>
  Python \<open>bytes\<close> are lists of 8-bit values; a HOL \<open>char\<close> is exactly one byte, so a byte
  string is a \<open>string\<close>. Python \<open>str\<close> values are kept in their UTF-8 encoding, which makes
  \<open>str.encode("utf-8")\<close> and \<open>bytes.decode("utf-8")\<close> part of the JSON library below.
\<close>

type_synonym bytes = string

text \<open>
  A JSON value, as the \<open>Dict[str, Any]\<close> payloads hold it. The type of floating-point
  numbers is a parameter: the protocol never looks inside one.
\<close>

datatype 'f json =
    JNull
  | JBool bool
  | JInt int
  | JFloat 'f
  | JStr string
  | JArr "'f json list"
  | JObj "(string \<times> 'f json) list"

type_synonym 'f dict = "(string \<times> 'f json) list"

text \<open>Python exceptions, each with the text \<open>str(e)\<close> gives.\<close>

datatype exn =
    ValueError string
  | OverflowError string
  | TypeError string
  | JSONDecodeError string
  | ValidationError string
  | RuntimeError string
  | IncompleteReadError
  | Exception string

fun str_exn :: "exn \<Rightarrow> string" where
  "str_exn (ValueError m) = m"
| "str_exn (OverflowError m) = m"
| "str_exn (TypeError m) = m"
| "str_exn (JSONDecodeError m) = m"
| "str_exn (ValidationError m) = m"
| "str_exn (RuntimeError m) = m"
| "str_exn IncompleteReadError = ''''"
| "str_exn (Exception m) = m"

text \<open>
  The JSON library is not code of this repository (pydantic's \<open>model_dump_json\<close> and
  \<open>model_validate_json\<close>, Python's \<open>json.loads\<close> and the UTF-8 codec): the protocol takes
  it as a parameter. \<open>dumps\<close> renders a value as UTF-8 bytes, \<open>loads\<close> parses bytes or raises,
  \<open>validation_message\<close> is the text of pydantic's validation error for a model name and the
  rejected value.
\<close>

record 'f json_lib =
  dumps :: "'f json \<Rightarrow> bytes"
  loads :: "bytes \<Rightarrow> exn + 'f json"
  validation_message :: "string \<Rightarrow> 'f json \<Rightarrow> string"

datatype TCPAction =
    CLUSTER_DOCUMENTS | UPDATE_CLUSTERS | GET_CLUSTERS | GET_CLUSTER_DETAILS
  | EXTRACT_TOPICS | UPDATE_TOPICS | GET_TOPICS | GET_TOPIC_TRENDS
  | RECOMMEND_SIMILAR | GET_RECOMMENDATIONS
  | UPDATE_VISUALIZATION | GET_VISUALIZATION
  | ANALYZE_TRENDS | GET_TEMPORAL_PATTERNS
  | PING | STATUS

fun action_value :: "TCPAction \<Rightarrow> string" where
  "action_value CLUSTER_DOCUMENTS = ''cluster_documents''"
| "action_value UPDATE_CLUSTERS = ''update_clusters''"
| "action_value GET_CLUSTERS = ''get_clusters''"
| "action_value GET_CLUSTER_DETAILS = ''get_cluster_details''"
| "action_value EXTRACT_TOPICS = ''extract_topics''"
| "action_value UPDATE_TOPICS = ''update_topics''"
| "action_value GET_TOPICS = ''get_topics''"
| "action_value GET_TOPIC_TRENDS = ''get_topic_trends''"
| "action_value RECOMMEND_SIMILAR = ''recommend_similar''"
| "action_value GET_RECOMMENDATIONS = ''get_recommendations''"
| "action_value UPDATE_VISUALIZATION = ''update_visualization''"
| "action_value GET_VISUALIZATION = ''get_visualization''"
| "action_value ANALYZE_TRENDS = ''analyze_trends''"
| "action_value GET_TEMPORAL_PATTERNS = ''get_temporal_patterns''"
| "action_value PING = ''ping''"
| "action_value STATUS = ''status''"

definition all_actions :: "TCPAction list" where
  "all_actions =
     [CLUSTER_DOCUMENTS, UPDATE_CLUSTERS, GET_CLUSTERS, GET_CLUSTER_DETAILS,
      EXTRACT_TOPICS, UPDATE_TOPICS, GET_TOPICS, GET_TOPIC_TRENDS,
      RECOMMEND_SIMILAR, GET_RECOMMENDATIONS,
      UPDATE_VISUALIZATION, GET_VISUALIZATION,
      ANALYZE_TRENDS, GET_TEMPORAL_PATTERNS,
      PING, STATUS]"

text \<open>Validation of an enum field: the member whose value is the given string.\<close>

definition action_of_value :: "string \<Rightarrow> TCPAction option" where
  "action_of_value s = find (\<lambda>a. action_value a = s) all_actions"

record 'f TCPRequest =
  action :: TCPAction
  data :: "'f dict"
  request_id :: "string option"

record 'f TCPResponse =
  status :: string
  result :: "'f dict option"
  error :: "string option"
  response_request_id :: "string option"

datatype 'f message = Request "'f TCPRequest" | Response "'f TCPResponse"

text \<open>\<open>TCPResponse.success\<close> and \<open>TCPResponse.create_error\<close>.\<close>

definition success :: "'f dict \<Rightarrow> string option \<Rightarrow> 'f TCPResponse" where
  "success res rid =
     \<lparr>status = ''success'', result = Some res, error = None, response_request_id = rid\<rparr>"

definition create_error :: "string \<Rightarrow> string option \<Rightarrow> 'f TCPResponse" where
  "create_error error_message rid =
     \<lparr>status = ''error'', result = None, error = Some error_message,
      response_request_id = rid\<rparr>"

text \<open>\<open>model_dump\<close>: every field of the model, in declaration order; \<open>None\<close> is \<open>null\<close>.\<close>

definition opt_str :: "string option \<Rightarrow> 'f json" where
  "opt_str v = (case v of None \<Rightarrow> JNull | Some s \<Rightarrow> JStr s)"

definition request_dump :: "'f TCPRequest \<Rightarrow> 'f json" where
  "request_dump r =
     JObj [(''action'', JStr (action_value (action r))),
           (''data'', JObj (data r)),
           (''request_id'', opt_str (request_id r))]"

definition response_dump :: "'f TCPResponse \<Rightarrow> 'f json" where
  "response_dump r =
     JObj [(''status'', JStr (status r)),
           (''result'', (case result r of None \<Rightarrow> JNull | Some d \<Rightarrow> JObj d)),
           (''error'', opt_str (error r)),
           (''request_id'', opt_str (response_request_id r))]"

definition to_json :: "'f json_lib \<Rightarrow> 'f message \<Rightarrow> bytes" where
  "to_json lib m =
     (case m of Request r \<Rightarrow> dumps lib (request_dump r)
              | Response r \<Rightarrow> dumps lib (response_dump r))"

text \<open>
  Field validation of \<open>model_validate_json\<close>. A Python dict keeps the last value of a
  repeated key. An \<open>Optional[str]\<close> field accepts a string, \<open>null\<close> or its absence; the
  \<open>data\<close> field has a default and accepts an object only.
\<close>

definition dict_get :: "'f dict \<Rightarrow> string \<Rightarrow> 'f json option" where
  "dict_get d k = map_of (rev d) k"

definition optional_str_field :: "'f dict \<Rightarrow> string \<Rightarrow> string option option" where
  "optional_str_field d k =
     (case dict_get d k of
        None \<Rightarrow> Some None
      | Some JNull \<Rightarrow> Some None
      | Some (JStr s) \<Rightarrow> Some (Some s)
      | Some _ \<Rightarrow> None)"

definition validate_request :: "'f json \<Rightarrow> 'f TCPRequest option" where
  "validate_request j =
     (case j of
        JObj d \<Rightarrow>
          (case dict_get d ''action'' of
             Some (JStr s) \<Rightarrow>
               (case action_of_value s of
                  None \<Rightarrow> None
                | Some a \<Rightarrow>
                    (case (case dict_get d ''data'' of
                             None \<Rightarrow> Some []
                           | Some (JObj dd) \<Rightarrow> Some dd
                           | Some _ \<Rightarrow> None) of
                       None \<Rightarrow> None
                     | Some dd \<Rightarrow>
                         (case optional_str_field d ''request_id'' of
                            None \<Rightarrow> None
                          | Some rid \<Rightarrow>
                              Some \<lparr>action = a, data = dd, request_id = rid\<rparr>)))
           | _ \<Rightarrow> None)
      | _ \<Rightarrow> None)"

definition validate_response :: "'f json \<Rightarrow> 'f TCPResponse option" where
  "validate_response j =
     (case j of
        JObj d \<Rightarrow>
          (case dict_get d ''status'' of
             Some (JStr s) \<Rightarrow>
               (case (case dict_get d ''result'' of
                        None \<Rightarrow> Some None
                      | Some JNull \<Rightarrow> Some None
                      | Some (JObj dd) \<Rightarrow> Some (Some dd)
                      | Some _ \<Rightarrow> None) of
                  None \<Rightarrow> None
                | Some res \<Rightarrow>
                    (case optional_str_field d ''error'' of
                       None \<Rightarrow> None
                     | Some err \<Rightarrow>
                         (case optional_str_field d ''request_id'' of
                            None \<Rightarrow> None
                          | Some rid \<Rightarrow>
                              Some \<lparr>status = s, result = res, error = err,
                                    response_request_id = rid\<rparr>)))
           | _ \<Rightarrow> None)
      | _ \<Rightarrow> None)"

text \<open>\<open>TCPRequest.from_json\<close> and \<open>TCPResponse.from_json\<close>: parse the text, validate the fields.\<close>

definition request_from_json :: "'f json_lib \<Rightarrow> bytes \<Rightarrow> exn + 'f TCPRequest" where
  "request_from_json lib json_str =
     (case loads lib json_str of
        Inl e \<Rightarrow> Inl (ValidationError (str_exn e))
      | Inr j \<Rightarrow>
          (case validate_request j of
             None \<Rightarrow> Inl (ValidationError (validation_message lib ''TCPRequest'' j))
           | Some r \<Rightarrow> Inr r))"

definition response_from_json :: "'f json_lib \<Rightarrow> bytes \<Rightarrow> exn + 'f TCPResponse" where
  "response_from_json lib json_str =
     (case loads lib json_str of
        Inl e \<Rightarrow> Inl (ValidationError (str_exn e))
      | Inr j \<Rightarrow>
          (case validate_response j of
             None \<Rightarrow> Inl (ValidationError (validation_message lib ''TCPResponse'' j))
           | Some r \<Rightarrow> Inr r))"

subsection \<open>Framing\<close>

text \<open>Decimal rendering of a length in an f-string.\<close>

fun str_nat :: "nat \<Rightarrow> string" where
  "str_nat n =
     (if n < 10 then [char_of (48 + n)]
      else str_nat (n div 10) @ [char_of (48 + n mod 10)])"

text \<open>\<open>int.to_bytes(4, byteorder="big")\<close> raises OverflowError from \<open>2 ^ 32 = 4294967296\<close> on.\<close>

definition to_bytes4 :: "nat \<Rightarrow> exn + bytes" where
  "to_bytes4 n =
     (if n < 4294967296
      then Inr [char_of (n div 16777216), char_of (n div 65536), char_of (n div 256), char_of n]
      else Inl (OverflowError ''int too big to convert''))"

definition from_bytes :: "bytes \<Rightarrow> nat" where
  "from_bytes bs = foldl (\<lambda>acc b. acc * 256 + of_char b) 0 bs"

definition encode_message :: "'f json_lib \<Rightarrow> 'f message \<Rightarrow> exn + bytes" where
  "encode_message lib m =
     (let json_bytes = to_json lib m;
          len = length json_bytes
      in case to_bytes4 len of
           Inl e \<Rightarrow> Inl e
         | Inr length_bytes \<Rightarrow> Inr (length_bytes @ json_bytes))"

text \<open>
  \<open>"action" in json_data\<close>: a key of an object, an element of an array, a substring of a
  string; any other value is not iterable.
\<close>

fun is_substring :: "string \<Rightarrow> string \<Rightarrow> bool" where
  "is_substring p [] = (p = [])"
| "is_substring p (c # cs) = (p = take (length p) (c # cs) \<or> is_substring p cs)"

fun contains_action :: "'f json \<Rightarrow> exn + bool" where
  "contains_action (JObj d) = Inr (''action'' \<in> set (map fst d))"
| "contains_action (JArr xs) = Inr (JStr ''action'' \<in> set xs)"
| "contains_action (JStr s) = Inr (is_substring ''action'' s)"
| "contains_action _ = Inl (TypeError ''argument is not iterable'')"

definition decode_message :: "'f json_lib \<Rightarrow> bytes \<Rightarrow> exn + 'f message" where
  "decode_message lib data_bytes =
     (if length data_bytes < 4
      then Inl (ValueError ''Mensaje incompleto: faltan bytes de longitud'')
      else
        let len = from_bytes (take 4 data_bytes);
            json_bytes = take len (drop 4 data_bytes)
        in if length json_bytes < len
           then Inl (ValueError (''Mensaje incompleto: esperaba '' @ str_nat len @
                  '' bytes, recibi'' @ [CHR 0xC3, CHR 0xB3] @ '' '' @
                  str_nat (length json_bytes)))
           else
             (case loads lib json_bytes of
                Inl e \<Rightarrow> Inl e
              | Inr json_data \<Rightarrow>
                  (case contains_action json_data of
                     Inl e \<Rightarrow> Inl e
                   | Inr True \<Rightarrow> map_sum id Request (request_from_json lib json_bytes)
                   | Inr False \<Rightarrow> map_sum id Response (response_from_json lib json_bytes))))"

section \<open>The TCP server (app/core/tcp/server.py)\<close>

text \<open>
  A handler is an async function from the request's \<open>data\<close> to a result dict; it works on
  the stored state \<open>'s\<close> and may raise.
\<close>

type_synonym ('f, 's) handler = "'f dict \<Rightarrow> 's \<Rightarrow> (exn + 'f dict) \<times> 's"

definition unsupported_action :: "TCPAction \<Rightarrow> string" where
  "unsupported_action a =
     ''Acci'' @ [CHR 0xC3, CHR 0xB3] @ ''n no soportada: '' @ action_value a"

definition process_request ::
  "(TCPAction \<rightharpoonup> ('f, 's) handler) \<Rightarrow> 'f TCPRequest \<Rightarrow> 's \<Rightarrow> 'f TCPResponse \<times> 's" where
  "process_request handlers request s =
     (case handlers (action request) of
        None \<Rightarrow>
          (create_error (unsupported_action (action request)) (request_id request), s)
      | Some handler \<Rightarrow>
          (case handler (data request) s of
             (Inl e, s') \<Rightarrow> (create_error (str_exn e) (request_id request), s')
           | (Inr res, s') \<Rightarrow> (success res (request_id request), s')))"

text \<open>
  One connection. \<open>stream\<close> is everything the peer sends before it closes its side;
  \<open>readexactly n\<close> raises IncompleteReadError when fewer than \<open>n\<close> bytes are left. The result
  is the list of buffers written to the peer, and the state.
\<close>

definition readexactly :: "nat \<Rightarrow> bytes \<Rightarrow> exn + (bytes \<times> bytes)" where
  "readexactly n stream =
     (if length stream < n then Inl IncompleteReadError
      else Inr (take n stream, drop n stream))"

definition write_error :: "'f json_lib \<Rightarrow> string \<Rightarrow> bytes list" where
  "write_error lib msg =
     (case encode_message lib (Response (create_error msg None)) of
        Inl e \<Rightarrow> []
      | Inr b \<Rightarrow> [b])"

definition connection_closed :: string where
  "connection_closed = ''Conexi'' @ [CHR 0xC3, CHR 0xB3] @ ''n cerrada inesperadamente''"

definition not_a_request :: string where
  "not_a_request = ''Mensaje recibido no es una solicitud v'' @ [CHR 0xC3, CHR 0xA1] @ ''lida''"

definition handle_client ::
  "'f json_lib \<Rightarrow> (TCPAction \<rightharpoonup> ('f, 's) handler) \<Rightarrow> bytes \<Rightarrow> 's \<Rightarrow> bytes list \<times> 's" where
  "handle_client lib handlers stream s =
     (case readexactly 4 stream of
        Inl e \<Rightarrow> (write_error lib connection_closed, s)
      | Inr (length_bytes, rest) \<Rightarrow>
          (case readexactly (from_bytes length_bytes) rest of
             Inl e \<Rightarrow> (write_error lib connection_closed, s)
           | Inr (message_bytes, rest') \<Rightarrow>
               (case decode_message lib (length_bytes @ message_bytes) of
                  Inl e \<Rightarrow> (write_error lib (''Error del servidor: '' @ str_exn e), s)
                | Inr (Response r) \<Rightarrow>
                    (write_error lib (''Error del servidor: '' @ not_a_request), s)
                | Inr (Request request) \<Rightarrow>
                    (case process_request handlers request s of
                       (response, s') \<Rightarrow>
                         (case encode_message lib (Response response) of
                            Inl e \<Rightarrow>
                              (write_error lib (''Error del servidor: '' @ str_exn e), s')
                          | Inr response_bytes \<Rightarrow> ([response_bytes], s'))))))"

section \<open>A reference JSON library\<close>

text \<open>
  A compact JSON writer and reader, used to run the protocol on concrete frames. Floating
  point numbers are decimals: \<open>(m, n)\<close> stands for \<open>m / 10 ^ n\<close>.
\<close>

type_synonym decimal = "int \<times> nat"

definition hex_digit :: "nat \<Rightarrow> char" where
  "hex_digit n = (if n < 10 then char_of (48 + n) else char_of (87 + n))"

definition escape_char :: "char \<Rightarrow> string" where
  "escape_char c =
     (if c = CHR 0x22 then [CHR 0x5C, CHR 0x22]
      else if c = CHR 0x5C then [CHR 0x5C, CHR 0x5C]
      else if (of_char c :: nat) < 32
        then [CHR 0x5C, CHR ''u'', CHR ''0'', CHR ''0'',
              hex_digit (of_char c div 16), hex_digit (of_char c mod 16)]
      else [c])"

definition json_string :: "string \<Rightarrow> bytes" where
  "json_string s = CHR 0x22 # concat (map escape_char s) @ [CHR 0x22]"

definition str_int :: "int \<Rightarrow> string" where
  "str_int i = (if i < 0 then CHR ''-'' # str_nat (nat (- i)) else str_nat (nat i))"

definition str_decimal :: "decimal \<Rightarrow> string" where
  "str_decimal d =
     (case d of (m, n) \<Rightarrow>
        let ds = str_nat (nat \<bar>m\<bar>);
            padded = replicate (Suc n - length ds) CHR ''0'' @ ds;
            k = length padded - n
        in (if m < 0 then [CHR ''-''] else []) @ take k padded @ [CHR ''.''] @
           (if n = 0 then [CHR ''0''] else drop k padded))"

fun join :: "string \<Rightarrow> string list \<Rightarrow> string" where
  "join sep [] = []"
| "join sep [x] = x"
| "join sep (x # y # ys) = x @ sep @ join sep (y # ys)"

fun compact_dumps :: "decimal json \<Rightarrow> bytes" where
  "compact_dumps JNull = ''null''"
| "compact_dumps (JBool b) = (if b then ''true'' else ''false'')"
| "compact_dumps (JInt i) = str_int i"
| "compact_dumps (JFloat d) = str_decimal d"
| "compact_dumps (JStr s) = json_string s"
| "compact_dumps (JArr xs) = [CHR ''[''] @ join [CHR '',''] (map compact_dumps xs) @ [CHR '']'']"
| "compact_dumps (JObj kvs) =
     [CHR ''{''] @
     join [CHR '',''] (map (\<lambda>kv. json_string (fst kv) @ [CHR '':''] @ compact_dumps (snd kv)) kvs)
     @ [CHR ''}'']"

definition hex_value :: "char \<Rightarrow> nat option" where
  "hex_value c =
     (let n = (of_char c :: nat)
      in if 48 \<le> n \<and> n < 58 then Some (n - 48)
         else if 97 \<le> n \<and> n < 103 then Some (n - 87)
         else if 65 \<le> n \<and> n < 71 then Some (n - 55)
         else None)"

definition unescape :: "char \<Rightarrow> char option" where
  "unescape e =
     (if e = CHR 0x22 then Some (CHR 0x22)
      else if e = CHR 0x5C then Some (CHR 0x5C)
      else if e = CHR ''/'' then Some (CHR ''/'')
      else if e = CHR ''n'' then Some (CHR 0x0A)
      else if e = CHR ''t'' then Some (CHR 0x09)
      else if e = CHR ''r'' then Some (CHR 0x0D)
      else if e = CHR ''b'' then Some (CHR 0x08)
      else if e = CHR ''f'' then Some (CHR 0x0C)
      else None)"

text \<open>The rest of a string literal after its opening quote; u-escapes below 128 only.\<close>

fun parse_string_body :: "string \<Rightarrow> (string \<times> string) option" where
  "parse_string_body [] = None"
| "parse_string_body (c # cs) =
     (if c = CHR 0x22 then Some ([], cs)
      else if c = CHR 0x5C then
        (case cs of
           [] \<Rightarrow> None
         | e # cs' \<Rightarrow>
             (if e = CHR ''u'' then
                (case cs' of
                   h1 # h2 # h3 # h4 # r \<Rightarrow>
                     (case (hex_value h1, hex_value h2, hex_value h3, hex_value h4) of
                        (Some a, Some b, Some c', Some d) \<Rightarrow>
                          (if a = 0 \<and> b = 0 \<and> c' < 8
                           then map_option (apfst ((#) (char_of (16 * c' + d))))
                                  (parse_string_body r)
                           else None)
                      | _ \<Rightarrow> None)
                 | _ \<Rightarrow> None)
              else
                (case unescape e of
                   None \<Rightarrow> None
                 | Some ch \<Rightarrow> map_option (apfst ((#) ch)) (parse_string_body cs'))))
      else if (of_char c :: nat) < 32 then None
      else map_option (apfst ((#) c)) (parse_string_body cs))"

definition is_digit :: "char \<Rightarrow> bool" where
  "is_digit c = (48 \<le> (of_char c :: nat) \<and> (of_char c :: nat) < 58)"

definition nat_of_digits :: "string \<Rightarrow> nat" where
  "nat_of_digits ds = foldl (\<lambda>a c. 10 * a + (of_char c - 48)) 0 ds"

definition parse_number :: "string \<Rightarrow> (decimal json \<times> string) option" where
  "parse_number s =
     (let neg = (s \<noteq> [] \<and> hd s = CHR ''-'');
          s1 = (if neg then tl s else s);
          ds = takeWhile is_digit s1;
          s2 = dropWhile is_digit s1;
          sg = (if neg then - 1 else 1 :: int)
      in if ds = [] then None
         else if s2 \<noteq> [] \<and> hd s2 = CHR ''.'' then
           (let fs = takeWhile is_digit (tl s2);
                s3 = dropWhile is_digit (tl s2)
            in if fs = [] then None
               else Some (JFloat (sg * int (nat_of_digits (ds @ fs)), length fs), s3))
         else Some (JInt (sg * int (nat_of_digits ds)), s2))"

text \<open>Recursive descent; the first argument bounds the number of nested calls.\<close>

fun parse_value :: "nat \<Rightarrow> string \<Rightarrow> (decimal json \<times> string) option"
  and parse_elems :: "nat \<Rightarrow> string \<Rightarrow> (decimal json list \<times> string) option"
  and parse_members :: "nat \<Rightarrow> string \<Rightarrow> (decimal dict \<times> string) option" where
  "parse_value 0 s = None"
| "parse_value (Suc k) s =
     (case s of
        [] \<Rightarrow> None
      | c # cs \<Rightarrow>
          (if c = CHR 0x22 then map_option (apfst JStr) (parse_string_body cs)
           else if c = CHR ''['' then
             (if cs \<noteq> [] \<and> hd cs = CHR '']'' then Some (JArr [], tl cs)
              else map_option (apfst JArr) (parse_elems k cs))
           else if c = CHR ''{'' then
             (if cs \<noteq> [] \<and> hd cs = CHR ''}'' then Some (JObj [], tl cs)
              else map_option (apfst JObj) (parse_members k cs))
           else if take 4 s = ''null'' then Some (JNull, drop 4 s)
           else if take 4 s = ''true'' then Some (JBool True, drop 4 s)
           else if take 5 s = ''false'' then Some (JBool False, drop 5 s)
           else parse_number s))"
| "parse_elems 0 s = None"
| "parse_elems (Suc k) s =
     (case parse_value k s of
        None \<Rightarrow> None
      | Some (v, r) \<Rightarrow>
          (case r of
             [] \<Rightarrow> None
           | c # r' \<Rightarrow>
               (if c = CHR '','' then map_option (apfst ((#) v)) (parse_elems k r')
                else if c = CHR '']'' then Some ([v], r')
                else None)))"
| "parse_members 0 s = None"
| "parse_members (Suc k) s =
     (case s of
        [] \<Rightarrow> None
      | q # s' \<Rightarrow>
          (if q \<noteq> CHR 0x22 then None
           else
             (case parse_string_body s' of
                None \<Rightarrow> None
              | Some (key, r0) \<Rightarrow>
                  (case r0 of
                     [] \<Rightarrow> None
                   | colon # r1 \<Rightarrow>
                       (if colon \<noteq> CHR '':'' then None
                        else
                          (case parse_value k r1 of
                             None \<Rightarrow> None
                           | Some (v, r) \<Rightarrow>
                               (case r of
                                  [] \<Rightarrow> None
                                | c # r' \<Rightarrow>
                                    (if c = CHR '','' then
                                       map_option (apfst ((#) (key, v))) (parse_members k r')
                                     else if c = CHR ''}'' then Some ([(key, v)], r')
                                     else None))))))))"

definition compact_loads :: "bytes \<Rightarrow> exn + decimal json" where
  "compact_loads s =
     (case parse_value (Suc (length s)) s of
        Some (v, []) \<Rightarrow> Inr v
      | _ \<Rightarrow> Inl (JSONDecodeError ''invalid JSON''))"

definition compact_json :: "decimal json_lib" where
  "compact_json =
     \<lparr>dumps = compact_dumps, loads = compact_loads,
      validation_message = (\<lambda>model j. ''1 validation error for '' @ model)\<rparr>"

text \<open>The handlers of server.py, and the registry \<open>create_tcp_server\<close> starts with.\<close>

definition handle_ping :: "('f, 's) handler" where
  "handle_ping d s = (Inr [(''message'', JStr ''pong''), (''status'', JStr ''healthy'')], s)"

definition handle_status :: "('f, 's) handler" where
  "handle_status d s =
     (Inr [(''service'', JStr ''services_ML''),
           (''version'', JStr ''1.0.0''),
           (''status'', JStr ''running''),
           (''features'',
            JArr [JStr ''clustering'', JStr ''topic_modeling'', JStr ''recommendations'',
                  JStr ''visualization'', JStr ''temporal_analysis''])], s)"

definition create_tcp_server :: "TCPAction \<rightharpoonup> ('f, 's) handler" where
  "create_tcp_server = [PING \<mapsto> handle_ping, STATUS \<mapsto> handle_status]"


section \<open>Example frames\<close>






text \<open>
  A frame around any JSON value, as a peer can send it: the length prefix, then the text.
\<close>

definition raw_frame :: "decimal json \<Rightarrow> bytes" where
  "raw_frame j =
     (case to_bytes4 (length (compact_dumps j)) of
        Inl e \<Rightarrow> []
      | Inr length_bytes \<Rightarrow> length_bytes @ compact_dumps j)"

definition does_not_exist_frame :: bytes where
  "does_not_exist_frame =
     raw_frame (JObj [(''action'', JStr ''does_not_exist''), (''data'', JObj []),
                      (''request_id'', JStr ''r9'')])"

definition get_topics_frame :: bytes where
  "get_topics_frame =
     raw_frame (JObj [(''action'', JStr ''get_topics''), (''data'', JObj []),
                      (''request_id'', JStr ''r7'')])"

definition get_topics_request :: "decimal TCPRequest" where
  "get_topics_request = \<lparr>action = GET_TOPICS, data = [], request_id = Some ''r7''\<rparr>"


section \<open>The store (app/core/database, persistence_adapter.py)\<close>

text \<open>
  The PostgreSQL tables the adapter reads and writes, each a list of rows in storage
  order. Floating-point numbers are reals. The schema is not part of the repository's
  sources: foreign keys and their delete actions are not modelled, \<open>ml_clusters.id\<close> is a
  serial column fed by \<open>ml_clusters_seq\<close>, and \<open>documents\<close> keeps the \<open>id\<close> and \<open>filename\<close>
  columns the adapter reads. \<open>connection_pool\<close> tells whether \<open>init_connection_pool\<close> has
  run.
\<close>

type_synonym vector = "real list"

record embedding_row =
  emb_id :: string
  emb_collection_id :: string
  emb_document :: "string option"
  emb_embedding :: vector

record collection_row =
  col_uuid :: string
  col_name :: string

record cluster_row =
  cl_id :: nat
  cl_user_id :: string
  cl_cluster_id :: int
  cl_label :: string
  cl_size :: nat
  cl_keywords :: "string list"
  cl_centroid :: vector

record document_cluster_row =
  dc_document_id :: string
  dc_cluster_id :: "nat option"
  dc_probability :: "real option"
  dc_is_outlier :: bool

record visualization_row =
  vz_user_id :: string
  vz_document_id :: string
  vz_x :: real
  vz_y :: real
  vz_cluster_id :: int

record recommendation_row =
  rc_document_id :: string
  rc_recommended_document_id :: string
  rc_similarity_score :: real
  rc_rank :: nat

record store =
  connection_pool :: bool
  langchain_pg_embedding :: "embedding_row list"
  langchain_pg_collection :: "collection_row list"
  documents :: "(string \<times> string) list"
  ml_clusters :: "cluster_row list"
  ml_clusters_seq :: nat
  ml_document_clusters :: "document_cluster_row list"
  ml_visualizations :: "visualization_row list"
  ml_recommendations :: "recommendation_row list"

text \<open>\<open>get_connection\<close> raises RuntimeError while the pool is not initialised.\<close>

definition pool_not_initialised :: exn where
  "pool_not_initialised =
     RuntimeError
       ''Pool de conexiones no inicializado. Llamar a init_connection_pool() primero''"

definition get_connection :: "store \<Rightarrow> exn + unit" where
  "get_connection s = (if connection_pool s then Inr () else Inl pool_not_initialised)"

text \<open>
  \<open>SELECT DISTINCT ON (key)\<close> over rows already ordered by the key keeps the first row of
  every run of equal keys.
\<close>

fun distinct_on :: "('a \<Rightarrow> 'k) \<Rightarrow> 'a list \<Rightarrow> 'a list" where
  "distinct_on key [] = []"
| "distinct_on key [x] = [x]"
| "distinct_on key (x # y # ys) =
     (if key x = key y then distinct_on key (x # ys) else x # distinct_on key (y # ys))"

text \<open>
  \<open>get_embeddings_by_user\<close>: the embeddings of the collection named after the user, one per
  document (\<open>ORDER BY lpe.document, lpe.id DESC\<close>, the first row of each document). Text is
  ordered bytewise.
\<close>

definition embeddings_of_user :: "store \<Rightarrow> string \<Rightarrow> (string \<times> vector) list" where
  "embeddings_of_user s user_id =
     map (\<lambda>e. (the (emb_document e), emb_embedding e))
       (distinct_on emb_document
          (sort_key (\<lambda>e. the (emb_document e))
             (rev (sort_key emb_id
                [e. e \<leftarrow> langchain_pg_embedding s, c \<leftarrow> langchain_pg_collection s,
                    emb_collection_id e = col_uuid c \<and> col_name c = user_id \<and>
                    emb_document e \<noteq> None]))))"

definition get_embeddings_by_user :: "store \<Rightarrow> string \<Rightarrow> exn + (string list \<times> vector list)" where
  "get_embeddings_by_user s user_id =
     (case get_connection s of
        Inl e \<Rightarrow> Inl e
      | Inr conn \<Rightarrow>
          let results = embeddings_of_user s user_id
          in Inr (map fst results, map snd results))"

text \<open>\<open>get_document_metadata\<close>: the filename of every listed document that has a row.\<close>

definition get_document_metadata :: "store \<Rightarrow> string list \<Rightarrow> exn + (string \<times> string) list" where
  "get_document_metadata s document_ids =
     (if document_ids = [] then Inr []
      else
        (case get_connection s of
           Inl e \<Rightarrow> Inl e
         | Inr conn \<Rightarrow> Inr (filter (\<lambda>row. fst row \<in> set document_ids) (documents s))))"

subsection \<open>Clusters\<close>

record cluster_info =
  ci_cluster_id :: int
  ci_label :: string
  ci_size :: nat
  ci_keywords :: "string list"
  ci_centroid :: vector

text \<open>
  \<open>INSERT ... ON CONFLICT (user_id, cluster_id) DO UPDATE\<close>: the row of that key is
  updated in place, or a new row is appended with the next value of the sequence.
\<close>

definition same_cluster_key :: "string \<Rightarrow> int \<Rightarrow> cluster_row \<Rightarrow> bool" where
  "same_cluster_key user_id cluster_id r =
     (cl_user_id r = user_id \<and> cl_cluster_id r = cluster_id)"

definition upsert_cluster ::
  "string \<Rightarrow> cluster_row list \<times> nat \<Rightarrow> cluster_info \<Rightarrow> cluster_row list \<times> nat" where
  "upsert_cluster user_id tbl c =
     (case tbl of (rows, seq) \<Rightarrow>
        if list_ex (same_cluster_key user_id (ci_cluster_id c)) rows
        then
          (map (\<lambda>r. if same_cluster_key user_id (ci_cluster_id c) r
                     then r\<lparr>cl_label := ci_label c, cl_size := ci_size c,
                            cl_keywords := ci_keywords c, cl_centroid := ci_centroid c\<rparr>
                     else r) rows,
           Suc seq)
        else
          (rows @ [\<lparr>cl_id = Suc seq, cl_user_id = user_id, cl_cluster_id = ci_cluster_id c,
                    cl_label = ci_label c, cl_size = ci_size c,
                    cl_keywords = ci_keywords c, cl_centroid = ci_centroid c\<rparr>],
           Suc seq))"

definition save_clusters ::
  "string \<Rightarrow> cluster_info list \<Rightarrow> bool \<Rightarrow> store \<Rightarrow> exn + store" where
  "save_clusters user_id cluster_data delete_existing s =
     (case get_connection s of
        Inl e \<Rightarrow> Inl e
      | Inr conn \<Rightarrow>
          let rows0 = (if delete_existing
                       then filter (\<lambda>r. cl_user_id r \<noteq> user_id) (ml_clusters s)
                       else ml_clusters s);
              tbl = foldl (upsert_cluster user_id) (rows0, ml_clusters_seq s) cluster_data
          in Inr (s\<lparr>ml_clusters := fst tbl, ml_clusters_seq := snd tbl\<rparr>))"

text \<open>
  \<open>save_document_clusters\<close>. The map from cluster number to primary key is built from every
  row of \<open>ml_clusters\<close> (\<open>SELECT id, cluster_id FROM ml_clusters\<close>); a later row overwrites
  an earlier one with the same number. A document whose label has no row and is not the
  outlier label is skipped; the others are upserted by \<open>document_id\<close>.
\<close>

definition cluster_id_map :: "cluster_row list \<Rightarrow> int \<rightharpoonup> nat" where
  "cluster_id_map rows = map_of (rev (map (\<lambda>r. (cl_cluster_id r, cl_id r)) rows))"

definition upsert_document_cluster ::
  "document_cluster_row list \<Rightarrow> document_cluster_row \<Rightarrow> document_cluster_row list" where
  "upsert_document_cluster rows new =
     (if list_ex (\<lambda>r. dc_document_id r = dc_document_id new) rows
      then map (\<lambda>r. if dc_document_id r = dc_document_id new then new else r) rows
      else rows @ [new])"

definition assign_document ::
  "(int \<rightharpoonup> nat) \<Rightarrow> document_cluster_row list \<Rightarrow> string \<times> int \<times> real \<Rightarrow>
     document_cluster_row list" where
  "assign_document id_map rows a =
     (case a of (doc_id, cluster_label, prob) \<Rightarrow>
        let is_outlier = (cluster_label = - 1);
            cluster_pk = id_map cluster_label
        in if cluster_pk = None \<and> \<not> is_outlier then rows
           else upsert_document_cluster rows
                  \<lparr>dc_document_id = doc_id, dc_cluster_id = cluster_pk,
                   dc_probability = Some prob, dc_is_outlier = is_outlier\<rparr>)"

definition save_document_clusters ::
  "string list \<Rightarrow> int list \<Rightarrow> real list \<Rightarrow> store \<Rightarrow> exn + store" where
  "save_document_clusters document_ids labels probabilities s =
     (case get_connection s of
        Inl e \<Rightarrow> Inl e
      | Inr conn \<Rightarrow>
          Inr (s\<lparr>ml_document_clusters :=
                 foldl (assign_document (cluster_id_map (ml_clusters s)))
                   (ml_document_clusters s)
                   (zip document_ids (zip labels probabilities))\<rparr>))"

text \<open>
  \<open>get_clusters_by_user\<close> reads the view \<open>v_cluster_summary\<close>, which is not in the sources;
  it is taken to list the user's rows of \<open>ml_clusters\<close>, ordered by cluster number.
\<close>

definition get_clusters_by_user :: "store \<Rightarrow> string \<Rightarrow> exn + cluster_row list" where
  "get_clusters_by_user s user_id =
     (case get_connection s of
        Inl e \<Rightarrow> Inl e
      | Inr conn \<Rightarrow>
          Inr (sort_key cl_cluster_id (filter (\<lambda>r. cl_user_id r = user_id) (ml_clusters s))))"

text \<open>
  \<open>get_document_cluster_labels\<close>: the cluster number of every listed document assigned to a
  cluster of the user, \<open>- 1\<close> for the others.
\<close>

definition get_document_cluster_labels ::
  "store \<Rightarrow> string \<Rightarrow> string list \<Rightarrow> exn + (string \<rightharpoonup> int)" where
  "get_document_cluster_labels s user_id document_ids =
     (case get_connection s of
        Inl e \<Rightarrow> Inl e
      | Inr conn \<Rightarrow>
          let results =
                [(dc_document_id dc, cl_cluster_id c).
                   dc \<leftarrow> ml_document_clusters s, c \<leftarrow> ml_clusters s,
                   dc_cluster_id dc = Some (cl_id c) \<and> cl_user_id c = user_id \<and>
                   dc_document_id dc \<in> set document_ids]
          in Inr (\<lambda>doc_id.
                (case map_of (rev results) doc_id of
                   Some n \<Rightarrow> Some n
                 | None \<Rightarrow> (if doc_id \<in> set document_ids then Some (- 1) else None))))"

subsection \<open>Visualization\<close>

definition upsert_visualization ::
  "visualization_row list \<Rightarrow> visualization_row \<Rightarrow> visualization_row list" where
  "upsert_visualization rows new =
     (if list_ex (\<lambda>r. vz_user_id r = vz_user_id new \<and> vz_document_id r = vz_document_id new) rows
      then map (\<lambda>r. if vz_user_id r = vz_user_id new \<and> vz_document_id r = vz_document_id new
                     then new else r) rows
      else rows @ [new])"

definition save_visualization ::
  "string \<Rightarrow> string list \<Rightarrow> (real \<times> real) list \<Rightarrow> int list \<Rightarrow> store \<Rightarrow> exn + store" where
  "save_visualization user_id document_ids coordinates_2d labels s =
     (case get_connection s of
        Inl e \<Rightarrow> Inl e
      | Inr conn \<Rightarrow>
          Inr (s\<lparr>ml_visualizations :=
                 foldl upsert_visualization (ml_visualizations s)
                   (map (\<lambda>(doc_id, (x, y), cluster_id).
                           \<lparr>vz_user_id = user_id, vz_document_id = doc_id, vz_x = x, vz_y = y,
                            vz_cluster_id = cluster_id\<rparr>)
                      (zip document_ids (zip coordinates_2d labels)))\<rparr>))"

text \<open>
  A row of \<open>get_visualization\<close>: the point, with the label of the user's cluster of that number
  and the document's filename where the left joins find them.
\<close>

record visualization_point =
  vp_document_id :: string
  vp_x :: real
  vp_y :: real
  vp_cluster_id :: int
  vp_cluster_label :: "string option"
  vp_filename :: "string option"

definition left_join :: "'a list \<Rightarrow> ('a \<Rightarrow> 'b list) \<Rightarrow> ('a \<times> 'b option) list" where
  "left_join xs matches =
     concat (map (\<lambda>x. case matches x of [] \<Rightarrow> [(x, None)] | ys \<Rightarrow> map (\<lambda>y. (x, Some y)) ys) xs)"

definition get_visualization :: "store \<Rightarrow> string \<Rightarrow> exn + visualization_point list" where
  "get_visualization s user_id =
     (case get_connection s of
        Inl e \<Rightarrow> Inl e
      | Inr conn \<Rightarrow>
          Inr (map (\<lambda>((v, c), d).
                      \<lparr>vp_document_id = vz_document_id v, vp_x = vz_x v, vp_y = vz_y v,
                       vp_cluster_id = vz_cluster_id v,
                       vp_cluster_label = map_option cl_label c,
                       vp_filename = map_option snd d\<rparr>)
                 (filter (\<lambda>((v, c), d). vz_user_id v = user_id)
                    (left_join
                       (left_join (ml_visualizations s)
                          (\<lambda>v. filter (\<lambda>c. vz_cluster_id v = cl_cluster_id c \<and>
                                             cl_user_id c = vz_user_id v) (ml_clusters s)))
                       (\<lambda>(v, c). filter (\<lambda>d. vz_document_id v = fst d) (documents s))))))"

subsection \<open>Recommendations\<close>

record recommendation =
  rec_document_id :: string
  rec_filename :: string
  rec_similarity_score :: real

definition save_recommendations :: "string \<Rightarrow> recommendation list \<Rightarrow> store \<Rightarrow> exn + store" where
  "save_recommendations document_id recommendations s =
     (case get_connection s of
        Inl e \<Rightarrow> Inl e
      | Inr conn \<Rightarrow>
          Inr (s\<lparr>ml_recommendations :=
                 filter (\<lambda>r. rc_document_id r \<noteq> document_id) (ml_recommendations s) @
                 map (\<lambda>(rank, r).
                        \<lparr>rc_document_id = document_id,
                         rc_recommended_document_id = rec_document_id r,
                         rc_similarity_score = rec_similarity_score r,
                         rc_rank = rank\<rparr>)
                   (zip [1 ..< Suc (length recommendations)] recommendations)\<rparr>))"

record cached_recommendation =
  cr_document_id :: string
  cr_similarity_score :: real
  cr_rank :: nat
  cr_filename :: "string option"

definition get_recommendations ::
  "store \<Rightarrow> string \<Rightarrow> int \<Rightarrow> exn + cached_recommendation list" where
  "get_recommendations s document_id top_k =
     (case get_connection s of
        Inl e \<Rightarrow> Inl e
      | Inr conn \<Rightarrow>
          if top_k < 0 then Inl (Exception ''LIMIT must not be negative'')
          else
            Inr (take (nat top_k)
                   (map (\<lambda>(r, d).
                           \<lparr>cr_document_id = rc_recommended_document_id r,
                            cr_similarity_score = rc_similarity_score r,
                            cr_rank = rc_rank r,
                            cr_filename = map_option snd d\<rparr>)
                      (sort_key (\<lambda>(r, d). rc_rank r)
                         (left_join
                            (filter (\<lambda>r. rc_document_id r = document_id) (ml_recommendations s))
                            (\<lambda>r. filter (\<lambda>d. rc_recommended_document_id r = fst d)
                                   (documents s)))))))"


section \<open>The use cases\<close>

text \<open>
  What the use cases call outside the repository, or what no statement below looks into:
  UMAP's \<open>fit_transform\<close> in its two presets, HDBSCAN's \<open>fit_predict\<close> with its membership
  probabilities (one label and one probability per row), pgvector's cosine distance
  \<open><=>\<close>, and the filename tokeniser \<open>_find_common_words\<close> with \<open>str.title\<close>. The numeric
  libraries may raise.
\<close>

record ext =
  umap_clustering :: "vector list \<Rightarrow> exn + vector list"
  umap_visualization :: "vector list \<Rightarrow> exn + (real \<times> real) list"
  hdbscan_fit :: "vector list \<Rightarrow> exn + (int list \<times> real list)"
  cosine_distance :: "vector \<Rightarrow> vector \<Rightarrow> real"
  find_common_words :: "string list \<Rightarrow> nat \<Rightarrow> string list"
  title :: "string \<Rightarrow> string"

text \<open>The result every use case returns from its \<open>except Exception\<close> clause.\<close>

definition failure :: "exn \<Rightarrow> real dict" where
  "failure e = [(''success'', JBool False), (''error'', JStr (str_exn e))]"

definition catch :: "(exn + real dict) \<times> store \<Rightarrow> real dict \<times> store" where
  "catch r = (case r of (Inl e, s) \<Rightarrow> (failure e, s) | (Inr res, s) \<Rightarrow> (res, s))"

text \<open>\<open>round(x, n)\<close> on a real number.\<close>

definition py_round :: "real \<Rightarrow> nat \<Rightarrow> real" where
  "py_round x n = of_int (round (x * 10 ^ n)) / 10 ^ n"

subsection \<open>cluster_documents.py and hdbscan_adapter.py\<close>

text \<open>\<open>np.unique(labels)\<close> restricted to the labels from 0 on.\<close>

definition cluster_ids :: "int list \<Rightarrow> int list" where
  "cluster_ids labels = sort (remdups (filter (\<lambda>l. 0 \<le> l) labels))"

definition num_outliers :: "int list \<Rightarrow> nat" where
  "num_outliers labels = length (filter (\<lambda>l. l = - 1) labels)"

definition outlier_percentage :: "int list \<Rightarrow> real" where
  "outlier_percentage labels = real (num_outliers labels) / real (length labels) * 100"

definition cluster_size :: "int list \<Rightarrow> int \<Rightarrow> nat" where
  "cluster_size labels cluster_id = length (filter (\<lambda>l. l = cluster_id) labels)"

text \<open>\<open>np.mean(rows, axis=0)\<close>.\<close>

definition mean_rows :: "vector list \<Rightarrow> vector" where
  "mean_rows rows =
     (case rows of
        [] \<Rightarrow> []
      | r # rs \<Rightarrow> map (\<lambda>j. sum_list (map (\<lambda>v. v ! j) rows) / real (length rows))
                      [0 ..< length r])"

definition cluster_centroid :: "vector list \<Rightarrow> int list \<Rightarrow> int \<Rightarrow> vector" where
  "cluster_centroid embeddings labels cluster_id =
     mean_rows (map fst (filter (\<lambda>(e, l). l = cluster_id) (zip embeddings labels)))"

text \<open>The filenames of a cluster's documents that have metadata.\<close>

definition cluster_filenames ::
  "string list \<Rightarrow> int list \<Rightarrow> int \<Rightarrow> (string \<times> string) list \<Rightarrow> string list" where
  "cluster_filenames doc_ids labels cluster_id metadata =
     concat (map (\<lambda>(doc_id, l).
                    if l = cluster_id
                    then (case map_of metadata doc_id of None \<Rightarrow> [] | Some f \<Rightarrow> [f])
                    else [])
               (zip doc_ids labels))"

definition generate_cluster_label ::
  "ext \<Rightarrow> string list \<Rightarrow> int list \<Rightarrow> (string \<times> string) list \<Rightarrow> int \<Rightarrow> string" where
  "generate_cluster_label x doc_ids labels metadata cluster_id =
     (let filenames = cluster_filenames doc_ids labels cluster_id metadata
      in if filenames \<noteq> [] then
           (let common_words = find_common_words x filenames 4
            in if common_words \<noteq> [] then title x (hd common_words)
               else ''Documentos - Grupo '' @ str_int cluster_id)
         else ''Cluster '' @ str_int cluster_id)"

definition extract_keywords_from_filenames ::
  "ext \<Rightarrow> string list \<Rightarrow> int list \<Rightarrow> int \<Rightarrow> (string \<times> string) list \<Rightarrow> string list" where
  "extract_keywords_from_filenames x doc_ids labels cluster_id metadata =
     take 10 (find_common_words x (cluster_filenames doc_ids labels cluster_id metadata) 3)"

definition cluster_data ::
  "ext \<Rightarrow> string list \<Rightarrow> vector list \<Rightarrow> int list \<Rightarrow> (string \<times> string) list \<Rightarrow>
     cluster_info list" where
  "cluster_data x doc_ids reduced_embeddings labels metadata =
     map (\<lambda>cluster_id.
            \<lparr>ci_cluster_id = cluster_id,
             ci_label = generate_cluster_label x doc_ids labels metadata cluster_id,
             ci_size = cluster_size labels cluster_id,
             ci_keywords = extract_keywords_from_filenames x doc_ids labels cluster_id metadata,
             ci_centroid = cluster_centroid reduced_embeddings labels cluster_id\<rparr>)
       (cluster_ids labels)"

definition cluster_json :: "cluster_info \<Rightarrow> real json" where
  "cluster_json c =
     JObj [(''cluster_id'', JInt (ci_cluster_id c)),
           (''label'', JStr (ci_label c)),
           (''size'', JInt (int (ci_size c))),
           (''keywords'', JArr (map JStr (ci_keywords c)))]"

definition clustering_result ::
  "string \<Rightarrow> string list \<Rightarrow> int list \<Rightarrow> cluster_info list \<Rightarrow> real dict" where
  "clustering_result user_id doc_ids labels cdata =
     [(''success'', JBool True),
      (''user_id'', JStr user_id),
      (''total_documents'', JInt (int (length doc_ids))),
      (''num_clusters'', JInt (int (length (cluster_ids labels)))),
      (''num_outliers'', JInt (int (num_outliers labels))),
      (''outlier_percentage'', JFloat (py_round (outlier_percentage labels) 2)),
      (''clusters'', JArr (map cluster_json cdata))]"

definition no_documents :: "string \<Rightarrow> real dict" where
  "no_documents user_id =
     [(''success'', JBool False),
      (''error'', JStr (''No se encontraron documentos para user_id='' @ user_id))]"

definition insufficient_documents :: "nat \<Rightarrow> real dict" where
  "insufficient_documents n =
     [(''success'', JBool False),
      (''error'',
       JStr (''Se necesitan al menos 3 documentos para clustering (encontrados: '' @
             str_nat n @ '')''))]"

text \<open>
  Steps 2 to 8 of \<open>ClusterDocumentsUseCase.execute\<close>, on the documents left after the
  optional filter: reduce, cluster, label, save, build the result.
\<close>

definition cluster_pipeline ::
  "ext \<Rightarrow> string \<Rightarrow> bool \<Rightarrow> string list \<Rightarrow> vector list \<Rightarrow> store \<Rightarrow>
     (exn + real dict) \<times> store" where
  "cluster_pipeline x user_id force_recluster doc_ids embeddings s =
     (case umap_clustering x embeddings of
        Inl e \<Rightarrow> (Inl e, s)
      | Inr reduced_embeddings \<Rightarrow>
          (case hdbscan_fit x reduced_embeddings of
             Inl e \<Rightarrow> (Inl e, s)
           | Inr (labels, probabilities) \<Rightarrow>
               (case get_document_metadata s doc_ids of
                  Inl e \<Rightarrow> (Inl e, s)
                | Inr metadata \<Rightarrow>
                    let cdata = cluster_data x doc_ids reduced_embeddings labels metadata
                    in (case save_clusters user_id cdata force_recluster s of
                          Inl e \<Rightarrow> (Inl e, s)
                        | Inr s1 \<Rightarrow>
                            (case save_document_clusters doc_ids labels probabilities s1 of
                               Inl e \<Rightarrow> (Inl e, s1)
                             | Inr s2 \<Rightarrow>
                                 (Inr (clustering_result user_id doc_ids labels cdata), s2))))))"

text \<open>
  The filter \<open>if document_ids:\<close> keeps the documents whose id is listed; \<open>None\<close> and the
  empty list leave all of them.
\<close>

definition select_documents ::
  "string list option \<Rightarrow> (string \<times> vector) list \<Rightarrow> (string \<times> vector) list" where
  "select_documents document_ids rows =
     (case document_ids of
        None \<Rightarrow> rows
      | Some ids \<Rightarrow> if ids = [] then rows else filter (\<lambda>(doc_id, e). doc_id \<in> set ids) rows)"

definition cluster_documents_try ::
  "ext \<Rightarrow> string \<Rightarrow> string list option \<Rightarrow> bool \<Rightarrow> store \<Rightarrow> (exn + real dict) \<times> store" where
  "cluster_documents_try x user_id document_ids force_recluster s =
     (case get_embeddings_by_user s user_id of
        Inl e \<Rightarrow> (Inl e, s)
      | Inr (doc_ids, embeddings) \<Rightarrow>
          if length doc_ids = 0 then (Inr (no_documents user_id), s)
          else if length doc_ids < 3 then (Inr (insufficient_documents (length doc_ids)), s)
          else
            let selected = select_documents document_ids (zip doc_ids embeddings)
            in cluster_pipeline x user_id force_recluster (map fst selected) (map snd selected) s)"

definition cluster_documents ::
  "ext \<Rightarrow> string \<Rightarrow> string list option \<Rightarrow> bool \<Rightarrow> store \<Rightarrow> real dict \<times> store" where
  "cluster_documents x user_id document_ids force_recluster s =
     catch (cluster_documents_try x user_id document_ids force_recluster s)"

subsection \<open>update_visualization.py\<close>

definition json_option_str :: "string option \<Rightarrow> real json" where
  "json_option_str v = (case v of None \<Rightarrow> JNull | Some t \<Rightarrow> JStr t)"

definition format_response :: "string \<Rightarrow> visualization_point list \<Rightarrow> real dict" where
  "format_response user_id viz_data =
     [(''success'', JBool True),
      (''user_id'', JStr user_id),
      (''total_points'', JInt (int (length viz_data))),
      (''points'',
       JArr (map (\<lambda>v. JObj [(''document_id'', JStr (vp_document_id v)),
                             (''x'', JFloat (vp_x v)),
                             (''y'', JFloat (vp_y v)),
                             (''cluster_id'', JInt (vp_cluster_id v)),
                             (''cluster_label'', json_option_str (vp_cluster_label v)),
                             (''filename'', json_option_str (vp_filename v))])
               viz_data))]"

text \<open>Everything of \<open>UpdateVisualizationUseCase.execute\<close> after the look at the stored points.\<close>

definition generate_visualization ::
  "ext \<Rightarrow> string \<Rightarrow> store \<Rightarrow> (exn + real dict) \<times> store" where
  "generate_visualization x user_id s =
     (case get_embeddings_by_user s user_id of
        Inl e \<Rightarrow> (Inl e, s)
      | Inr (doc_ids, embeddings) \<Rightarrow>
          if length doc_ids = 0 then (Inr (no_documents user_id), s)
          else
            (case umap_visualization x embeddings of
               Inl e \<Rightarrow> (Inl e, s)
             | Inr coordinates_2d \<Rightarrow>
                 (case get_clusters_by_user s user_id of
                    Inl e \<Rightarrow> (Inl e, s)
                  | Inr clusters \<Rightarrow>
                      (case (if clusters \<noteq> []
                             then map_sum id
                                    (\<lambda>cluster_map.
                                       map (\<lambda>doc_id. case cluster_map doc_id of
                                                         None \<Rightarrow> - 1 | Some n \<Rightarrow> n) doc_ids)
                                    (get_document_cluster_labels s user_id doc_ids)
                             else Inr (replicate (length doc_ids) (- 1))) of
                         Inl e \<Rightarrow> (Inl e, s)
                       | Inr labels \<Rightarrow>
                           (case save_visualization user_id doc_ids coordinates_2d labels s of
                              Inl e \<Rightarrow> (Inl e, s)
                            | Inr s1 \<Rightarrow>
                                (case get_visualization s1 user_id of
                                   Inl e \<Rightarrow> (Inl e, s1)
                                 | Inr viz_data \<Rightarrow>
                                     (Inr (format_response user_id viz_data), s1)))))))"

definition update_visualization_try ::
  "ext \<Rightarrow> string \<Rightarrow> bool \<Rightarrow> store \<Rightarrow> (exn + real dict) \<times> store" where
  "update_visualization_try x user_id force_update s =
     (if \<not> force_update then
        (case get_visualization s user_id of
           Inl e \<Rightarrow> (Inl e, s)
         | Inr existing_viz \<Rightarrow>
             if existing_viz \<noteq> [] then (Inr (format_response user_id existing_viz), s)
             else generate_visualization x user_id s)
      else generate_visualization x user_id s)"

definition update_visualization :: "ext \<Rightarrow> string \<Rightarrow> bool \<Rightarrow> store \<Rightarrow> real dict \<times> store" where
  "update_visualization x user_id force_update s =
     catch (update_visualization_try x user_id force_update s)"

subsection \<open>recommend_similar.py\<close>

text \<open>
  \<open>_calculate_similarity\<close>. The base row is the first row of the document; the candidates
  are the rows of its collection with another, non-null document, joined to their
  filename; \<open>SELECT DISTINCT ON (lpe.document) ... ORDER BY lpe.document, lpe.embedding <=>
  base LIMIT top_k\<close> orders them by document and then by distance, keeps the first row of
  each document and returns the first \<open>top_k\<close> of those.
\<close>

definition similar_rows :: "ext \<Rightarrow> store \<Rightarrow> string \<Rightarrow> embedding_row \<Rightarrow> embedding_row list" where
  "similar_rows x s document_id base =
     distinct_on emb_document
       (sort_key (\<lambda>e. the (emb_document e))
          (sort_key (\<lambda>e. cosine_distance x (emb_embedding e) (emb_embedding base))
             (filter (\<lambda>e. emb_collection_id e = emb_collection_id base \<and>
                           emb_document e \<noteq> None \<and> emb_document e \<noteq> Some document_id)
                (langchain_pg_embedding s))))"

definition calculate_similarity ::
  "ext \<Rightarrow> store \<Rightarrow> string \<Rightarrow> int \<Rightarrow> exn + recommendation list" where
  "calculate_similarity x s document_id top_k =
     (case get_connection s of
        Inl e \<Rightarrow> Inl e
      | Inr conn \<Rightarrow>
          (case filter (\<lambda>e. emb_document e = Some document_id) (langchain_pg_embedding s) of
             [] \<Rightarrow> Inr []
           | base # others \<Rightarrow>
               if top_k < 0 then Inl (Exception ''LIMIT must not be negative'')
               else
                 Inr (map (\<lambda>e. \<lparr>rec_document_id = the (emb_document e),
                                  rec_filename =
                                    (case map_of (documents s) (the (emb_document e)) of
                                       None \<Rightarrow> ''Sin nombre''
                                     | Some f \<Rightarrow> if f = [] then ''Sin nombre'' else f),
                                  rec_similarity_score =
                                    1 - cosine_distance x (emb_embedding e) (emb_embedding base)\<rparr>)
                        (take (nat top_k) (similar_rows x s document_id base)))))"

definition cached_json :: "cached_recommendation \<Rightarrow> real json" where
  "cached_json r =
     JObj [(''document_id'', JStr (cr_document_id r)),
           (''filename'', json_option_str (cr_filename r)),
           (''similarity_score'', JFloat (py_round (cr_similarity_score r) 4)),
           (''rank'', JInt (int (cr_rank r)))]"

definition recommendation_json :: "recommendation \<Rightarrow> real json" where
  "recommendation_json r =
     JObj [(''document_id'', JStr (rec_document_id r)),
           (''filename'', JStr (rec_filename r)),
           (''similarity_score'', JFloat (py_round (rec_similarity_score r) 4))]"

definition recommend_similar_try ::
  "ext \<Rightarrow> string \<Rightarrow> int \<Rightarrow> store \<Rightarrow> (exn + real dict) \<times> store" where
  "recommend_similar_try x document_id top_k s =
     (case get_recommendations s document_id top_k of
        Inl e \<Rightarrow> (Inl e, s)
      | Inr cached_recs \<Rightarrow>
          if cached_recs \<noteq> [] then
            (Inr [(''success'', JBool True),
                  (''document_id'', JStr document_id),
                  (''recommendations'', JArr (map cached_json cached_recs))], s)
          else
            (case calculate_similarity x s document_id top_k of
               Inl e \<Rightarrow> (Inl e, s)
             | Inr recommendations \<Rightarrow>
                 if recommendations = [] then
                   (Inr [(''success'', JBool False),
                         (''error'', JStr ''No se encontraron documentos similares'')], s)
                 else
                   (case save_recommendations document_id recommendations s of
                      Inl e \<Rightarrow> (Inl e, s)
                    | Inr s1 \<Rightarrow>
                        (Inr [(''success'', JBool True),
                              (''document_id'', JStr document_id),
                              (''recommendations'',
                               JArr (map recommendation_json recommendations))], s1))))"

definition recommend_similar :: "ext \<Rightarrow> string \<Rightarrow> int \<Rightarrow> store \<Rightarrow> real dict \<times> store" where
  "recommend_similar x document_id top_k s = catch (recommend_similar_try x document_id top_k s)"

subsection \<open>handlers.py\<close>

text \<open>
  The handlers read their arguments with \<open>data.get\<close>. The model reads the types the request
  models of protocol.py declare: a string, a list of strings, a boolean, an integer. A
  missing or null string is rendered as Python renders \<open>None\<close>.
\<close>

definition arg_str :: "real dict \<Rightarrow> string \<Rightarrow> string" where
  "arg_str d k = (case dict_get d k of Some (JStr v) \<Rightarrow> v | _ \<Rightarrow> ''None'')"

definition arg_str_list :: "real dict \<Rightarrow> string \<Rightarrow> string list option" where
  "arg_str_list d k =
     (case dict_get d k of
        Some (JArr xs) \<Rightarrow> Some (concat (map (\<lambda>j. case j of JStr v \<Rightarrow> [v] | _ \<Rightarrow> []) xs))
      | _ \<Rightarrow> None)"

definition arg_bool :: "real dict \<Rightarrow> string \<Rightarrow> bool \<Rightarrow> bool" where
  "arg_bool d k dflt = (case dict_get d k of Some (JBool b) \<Rightarrow> b | _ \<Rightarrow> dflt)"

definition arg_int :: "real dict \<Rightarrow> string \<Rightarrow> int \<Rightarrow> int" where
  "arg_int d k dflt = (case dict_get d k of Some (JInt i) \<Rightarrow> i | _ \<Rightarrow> dflt)"

definition handle_cluster_documents :: "ext \<Rightarrow> (real, store) handler" where
  "handle_cluster_documents x d s =
     (case cluster_documents x (arg_str d ''user_id'') (arg_str_list d ''document_ids'')
             (arg_bool d ''force_recluster'' False) s of
        (res, s') \<Rightarrow> (Inr res, s'))"

definition handle_recommend_similar :: "ext \<Rightarrow> (real, store) handler" where
  "handle_recommend_similar x d s =
     (case recommend_similar x (arg_str d ''document_id'') (arg_int d ''top_k'' 5) s of
        (res, s') \<Rightarrow> (Inr res, s'))"

definition handle_update_visualization :: "ext \<Rightarrow> (real, store) handler" where
  "handle_update_visualization x d s =
     (case update_visualization x (arg_str d ''user_id'') (arg_bool d ''force_update'' False) s of
        (res, s') \<Rightarrow> (Inr res, s'))"

definition handle_get_visualization :: "ext \<Rightarrow> (real, store) handler" where
  "handle_get_visualization x d s =
     (case update_visualization x (arg_str d ''user_id'') False s of
        (res, s') \<Rightarrow> (Inr res, s'))"

definition handle_analyze_trends :: "(real, store) handler" where
  "handle_analyze_trends d s =
     (Inr [(''success'', JBool False),
           (''error'',
            JStr (''An'' @ [CHR 0xC3, CHR 0xA1] @ ''lisis temporal no implementado a'' @
                  [CHR 0xC3, CHR 0xBA] @ ''n''))], s)"

text \<open>
  \<open>register_tcp_handlers\<close>, for the handlers modelled here (the handlers of \<open>get_clusters\<close>
  and \<open>extract_topics\<close> are left out).
\<close>

definition register_tcp_handlers ::
  "ext \<Rightarrow> (TCPAction \<rightharpoonup> (real, store) handler) \<Rightarrow> TCPAction \<rightharpoonup> (real, store) handler" where
  "register_tcp_handlers x tcp_server =
     tcp_server
       (CLUSTER_DOCUMENTS \<mapsto> handle_cluster_documents x,
        RECOMMEND_SIMILAR \<mapsto> handle_recommend_similar x,
        UPDATE_VISUALIZATION \<mapsto> handle_update_visualization x,
        GET_VISUALIZATION \<mapsto> handle_get_visualization x,
        ANALYZE_TRENDS \<mapsto> handle_analyze_trends)"


subsection \<open>What is stored for a user\<close>

text \<open>
  The user's rows of \<open>ml_clusters\<close> in storage order, without the primary key: the persisted
  cluster set of an owner.
\<close>

definition row_info :: "cluster_row \<Rightarrow> cluster_info" where
  "row_info r =
     \<lparr>ci_cluster_id = cl_cluster_id r, ci_label = cl_label r, ci_size = cl_size r,
      ci_keywords = cl_keywords r, ci_centroid = cl_centroid r\<rparr>"



section \<open>Example stores\<close>

text \<open>
  Stand-ins for the numeric libraries in the examples: a reduction that returns its input
  (its first two coordinates for the 2-D preset), a clusterer that puts every row in
  cluster 0 with probability 1, the cosine distance of vectors of length 1, and a
  tokeniser that finds no word.
\<close>

definition unit_cosine_distance :: "vector \<Rightarrow> vector \<Rightarrow> real" where
  "unit_cosine_distance a b = 1 - sum_list (map (\<lambda>(p, q). p * q) (zip a b))"

definition example_ext :: ext where
  "example_ext =
     \<lparr>umap_clustering = (\<lambda>rows. Inr rows),
      umap_visualization = (\<lambda>rows. Inr (map (\<lambda>v. (v ! 0, v ! 1)) rows)),
      hdbscan_fit = (\<lambda>rows. Inr (map (\<lambda>v. 0) rows, map (\<lambda>v. 1) rows)),
      cosine_distance = unit_cosine_distance,
      find_common_words = (\<lambda>filenames min_length. []),
      title = (\<lambda>w. w)\<rparr>"

text \<open>A reduction that raises.\<close>

definition failing_ext :: ext where
  "failing_ext = example_ext\<lparr>umap_clustering := (\<lambda>rows. Inl (ValueError ''n_neighbors must be greater than 1''))\<rparr>"

definition emb :: "string \<Rightarrow> string \<Rightarrow> string \<Rightarrow> vector \<Rightarrow> embedding_row" where
  "emb i c d v = \<lparr>emb_id = i, emb_collection_id = c, emb_document = Some d, emb_embedding = v\<rparr>"

text \<open>
  Two users, \<open>alice\<close> with three documents and \<open>bob\<close> with three documents, and nothing
  computed yet.
\<close>

definition fresh_store :: store where
  "fresh_store =
     \<lparr>connection_pool = True,
      langchain_pg_embedding =
        [emb ''e1'' ''c1'' ''a1'' [1, 0], emb ''e2'' ''c1'' ''a2'' [0, 1],
         emb ''e3'' ''c1'' ''a3'' [1, 0],
         emb ''e4'' ''c2'' ''b1'' [1, 0], emb ''e5'' ''c2'' ''b2'' [0, 1],
         emb ''e6'' ''c2'' ''b3'' [0, 1]],
      langchain_pg_collection =
        [\<lparr>col_uuid = ''c1'', col_name = ''alice''\<rparr>, \<lparr>col_uuid = ''c2'', col_name = ''bob''\<rparr>],
      documents =
        [(''a1'', ''invoice_1.pdf''), (''a2'', ''report_a.pdf''), (''a3'', ''invoice_2.pdf''),
         (''b1'', ''notes.pdf''), (''b2'', ''slides.pdf''), (''b3'', ''paper.pdf'')],
      ml_clusters = [],
      ml_clusters_seq = 0,
      ml_document_clusters = [],
      ml_visualizations = [],
      ml_recommendations = []\<rparr>"

text \<open>The same store before \<open>init_connection_pool\<close>.\<close>

definition closed_store :: store where
  "closed_store = fresh_store\<lparr>connection_pool := False\<rparr>"

text \<open>A user with two documents only.\<close>

definition small_store :: store where
  "small_store =
     fresh_store\<lparr>langchain_pg_embedding :=
        [emb ''e1'' ''c1'' ''a1'' [1, 0], emb ''e2'' ''c1'' ''a2'' [0, 1]]\<rparr>"


text \<open>Requests for the handlers.\<close>

definition cluster_request :: "real TCPRequest" where
  "cluster_request =
     \<lparr>action = CLUSTER_DOCUMENTS,
      data = [(''user_id'', JStr ''alice''), (''document_ids'', JNull),
              (''force_recluster'', JBool False)],
      request_id = Some ''r1''\<rparr>"

definition visualization_request :: "real TCPRequest" where
  "visualization_request =
     \<lparr>action = GET_VISUALIZATION, data = [(''user_id'', JStr ''alice'')],
      request_id = None\<rparr>"

definition recommend_request :: "real TCPRequest" where
  "recommend_request =
     \<lparr>action = RECOMMEND_SIMILAR,
      data = [(''document_id'', JStr ''a1''), (''top_k'', JInt 1)],
      request_id = None\<rparr>"

text \<open>The store after a visualization of \<open>alice\<close>'s documents, and the points read back.\<close>

definition visualized_store :: store where
  "visualized_store = snd (update_visualization example_ext ''alice'' True fresh_store)"

definition alice_points :: "visualization_point list" where
  "alice_points =
     [\<lparr>vp_document_id = ''a1'', vp_x = 1, vp_y = 0, vp_cluster_id = - 1,
       vp_cluster_label = None, vp_filename = Some ''invoice_1.pdf''\<rparr>,
      \<lparr>vp_document_id = ''a2'', vp_x = 0, vp_y = 1, vp_cluster_id = - 1,
       vp_cluster_label = None, vp_filename = Some ''report_a.pdf''\<rparr>,
      \<lparr>vp_document_id = ''a3'', vp_x = 1, vp_y = 0, vp_cluster_id = - 1,
       vp_cluster_label = None, vp_filename = Some ''invoice_2.pdf''\<rparr>]"








section \<open>Framing: incomplete buffers\<close>

lemma decode_message_short:
  "length buf < 4 \<Longrightarrow>
     decode_message lib buf = Inl (ValueError ''Mensaje incompleto: faltan bytes de longitud'')"
  by (simp add: decode_message_def)

lemma decode_message_truncated:
  assumes "4 \<le> length buf" and "length buf - 4 < from_bytes (take 4 buf)"
  shows "decode_message lib buf =
           Inl (ValueError (''Mensaje incompleto: esperaba '' @ str_nat (from_bytes (take 4 buf)) @
             '' bytes, recibi'' @ [CHR 0xC3, CHR 0xB3] @ '' '' @ str_nat (length buf - 4)))"
proof -
  have "length (take (from_bytes (take 4 buf)) (drop 4 buf)) = length buf - 4"
    using assms by simp
  then show ?thesis
    using assms by (simp add: decode_message_def Let_def del: str_nat.simps)
qed

text \<open>
  C7. \<open>decode_message\<close> raises ValueError with a "Mensaje incompleto" message, and returns
  no message, on every buffer shorter than 4 bytes and on every buffer whose 4-byte
  big-endian length prefix declares more bytes than follow it.
\<close>

theorem decode_message_incomplete:
  "(length buf < 4 \<longrightarrow>
      decode_message lib buf =
        Inl (ValueError ''Mensaje incompleto: faltan bytes de longitud'')) \<and>
   (4 \<le> length buf \<and> length buf - 4 < from_bytes (take 4 buf) \<longrightarrow>
      decode_message lib buf =
        Inl (ValueError (''Mensaje incompleto: esperaba '' @ str_nat (from_bytes (take 4 buf)) @
          '' bytes, recibi'' @ [CHR 0xC3, CHR 0xB3] @ '' '' @ str_nat (length buf - 4))))"
  using decode_message_short decode_message_truncated by blast

theorem decode_message_incomplete_witness:
  "length ''abc'' < 4 \<and>
   decode_message compact_json ''abc'' =
     Inl (ValueError ''Mensaje incompleto: faltan bytes de longitud'') \<and>
   4 \<le> length [CHR 0x00, CHR 0x00, CHR 0x00, CHR 0x05, CHR ''{'', CHR ''}''] \<and>
   length [CHR 0x00, CHR 0x00, CHR 0x00, CHR 0x05, CHR ''{'', CHR ''}''] - 4
     < from_bytes (take 4 [CHR 0x00, CHR 0x00, CHR 0x00, CHR 0x05, CHR ''{'', CHR ''}'']) \<and>
   decode_message compact_json [CHR 0x00, CHR 0x00, CHR 0x00, CHR 0x05, CHR ''{'', CHR ''}''] =
     Inl (ValueError (''Mensaje incompleto: esperaba 5 bytes, recibi'' @
       [CHR 0xC3, CHR 0xB3] @ '' 2''))"
proof -
  let ?b = "[CHR 0x00, CHR 0x00, CHR 0x00, CHR 0x05, CHR ''{'', CHR ''}'']"
  have l: "length ''abc'' < 4" by simp
  have f: "from_bytes (take 4 ?b) = 5" by (simp add: from_bytes_def)
  have n: "length ?b - 4 = 2" by simp
  have s5: "str_nat 5 = ''5''" and s2: "str_nat 2 = ''2''" by code_simp+
  have h: "4 \<le> length ?b \<and> length ?b - 4 < from_bytes (take 4 ?b)"
    unfolding f by simp
  from decode_message_incomplete [of "''abc''" compact_json] l
  have a: "decode_message compact_json ''abc'' =
      Inl (ValueError ''Mensaje incompleto: faltan bytes de longitud'')"
    by blast
  from decode_message_incomplete [of ?b compact_json] h
  have "decode_message compact_json ?b =
      Inl (ValueError (''Mensaje incompleto: esperaba '' @ str_nat (from_bytes (take 4 ?b)) @
          '' bytes, recibi'' @ [CHR 0xC3, CHR 0xB3] @ '' '' @ str_nat (length ?b - 4)))"
    by blast
  then have b: "decode_message compact_json ?b =
      Inl (ValueError (''Mensaje incompleto: esperaba 5 bytes, recibi'' @
        [CHR 0xC3, CHR 0xB3] @ '' 2''))"
    unfolding f n s5 s2 by simp
  show ?thesis using l a h b by blast
qed

section \<open>Framing: round trip\<close>











lemma decode_frame:
  assumes "length bs = 4" and "from_bytes bs = length body"
  shows "decode_message lib (bs @ body) =
           (case loads lib body of
              Inl e \<Rightarrow> Inl e
            | Inr json_data \<Rightarrow>
                (case contains_action json_data of
                   Inl e \<Rightarrow> Inl e
                 | Inr True \<Rightarrow> map_sum id Request (request_from_json lib body)
                 | Inr False \<Rightarrow> map_sum id Response (response_from_json lib body)))"
proof -
  have t: "take 4 (bs @ body) = bs" "drop 4 (bs @ body) = body"
    using assms by simp_all
  have u: "take (length body) body = body" by simp
  have v: "\<not> length (bs @ body) < 4" using assms by simp
  show ?thesis
    unfolding decode_message_def Let_def t assms(2) u
    by (simp only: v if_False less_irrefl)
qed














section \<open>The server: requests without a handler\<close>

lemma process_request_unregistered:
  "handlers (action req) = None \<Longrightarrow>
     process_request handlers req s =
       (create_error (unsupported_action (action req)) (request_id req), s)"
  by (simp add: process_request_def)

lemma handle_client_frame:
  assumes "4 \<le> length stream" and "length stream = 4 + from_bytes (take 4 stream)"
  shows "handle_client lib handlers stream s =
           (case decode_message lib stream of
              Inl e \<Rightarrow> (write_error lib (''Error del servidor: '' @ str_exn e), s)
            | Inr (Response r) \<Rightarrow>
                (write_error lib (''Error del servidor: '' @ not_a_request), s)
            | Inr (Request request) \<Rightarrow>
                (case process_request handlers request s of
                   (response, s') \<Rightarrow>
                     (case encode_message lib (Response response) of
                        Inl e \<Rightarrow> (write_error lib (''Error del servidor: '' @ str_exn e), s')
                      | Inr response_bytes \<Rightarrow> ([response_bytes], s'))))"
proof -
  have a: "readexactly 4 stream = Inr (take 4 stream, drop 4 stream)"
    using assms(1) by (simp add: readexactly_def)
  have b: "readexactly (from_bytes (take 4 stream)) (drop 4 stream) = Inr (drop 4 stream, [])"
    using assms by (simp add: readexactly_def)
  show ?thesis
    by (simp add: handle_client_def a b)
qed

lemma decode_invalid_action:
  assumes "4 \<le> length stream" and "length stream = 4 + from_bytes (take 4 stream)"
    and "loads lib (drop 4 stream) = Inr (JObj d)"
    and "dict_get d ''action'' = Some (JStr a)"
    and "action_of_value a = None"
  shows "decode_message lib stream =
           Inl (ValidationError (validation_message lib ''TCPRequest'' (JObj d)))"
proof -
  have k: "''action'' \<in> set (map fst d)"
  proof -
    from assms(4) have "map_of (rev d) ''action'' \<noteq> None" by (simp add: dict_get_def)
    then have "''action'' \<in> fst ` set (rev d)" by (simp add: map_of_eq_None_iff)
    then show ?thesis by simp
  qed
  have s: "stream = take 4 stream @ drop 4 stream" by simp
  have l: "length (take 4 stream) = 4" using assms(1) by simp
  have f: "from_bytes (take 4 stream) = length (drop 4 stream)" using assms(1,2) by simp
  have v: "validate_request (JObj d) = None"
    using assms(4,5) by (simp add: validate_request_def)
  have "decode_message lib (take 4 stream @ drop 4 stream) =
          Inl (ValidationError (validation_message lib ''TCPRequest'' (JObj d)))"
    unfolding decode_frame [OF l f]
    using k by (simp add: assms(3) request_from_json_def v)
  with s show ?thesis by simp
qed

lemma get_topics_frame_ok:
  "4 \<le> length get_topics_frame \<and>
   length get_topics_frame = 4 + from_bytes (take 4 get_topics_frame) \<and>
   decode_message compact_json get_topics_frame = Inr (Request get_topics_request) \<and>
   (create_tcp_server :: TCPAction \<rightharpoonup> (decimal, unit) handler)
      (action get_topics_request) = None \<and>
   encode_message compact_json
      (Response (create_error (unsupported_action (action get_topics_request))
         (request_id get_topics_request))) =
     Inr (raw_frame (JObj [(''status'', JStr ''error''), (''result'', JNull),
            (''error'', JStr (''Acci'' @ [CHR 0xC3, CHR 0xB3] @ ''n no soportada: get_topics'')),
            (''request_id'', JStr ''r7'')]))"
  by code_simp

lemma does_not_exist_frame_ok:
  "4 \<le> length does_not_exist_frame \<and>
   length does_not_exist_frame = 4 + from_bytes (take 4 does_not_exist_frame) \<and>
   loads compact_json (drop 4 does_not_exist_frame) =
     Inr (JObj [(''action'', JStr ''does_not_exist''), (''data'', JObj []),
                (''request_id'', JStr ''r9'')]) \<and>
   dict_get [(''action'', JStr ''does_not_exist''), (''data'', JObj []),
             (''request_id'', (JStr ''r9'' :: decimal json))] ''action''
     = Some (JStr ''does_not_exist'') \<and>
   action_of_value ''does_not_exist'' = None"
  by code_simp

text \<open>
  C4 (amended). A framed request whose action is a member of \<open>TCPAction\<close> with no registered
  handler is answered with one framed response of status "error" whose message is
  "Acci\<acute>on no soportada: " followed by the action's value. A framed request whose action
  string is not a member of \<open>TCPAction\<close> is rejected when it is decoded, and is answered with
  an error response whose message is "Error del servidor: " followed by the text of the
  validation error.
\<close>

theorem unregistered_action_error:
  "(4 \<le> length stream \<and> length stream = 4 + from_bytes (take 4 stream) \<and>
    decode_message lib stream = Inr (Request req) \<and>
    handlers (action req) = None \<and>
    encode_message lib
      (Response (create_error (unsupported_action (action req)) (request_id req))) = Inr out
    \<longrightarrow> handle_client lib handlers stream s = ([out], s)) \<and>
   (4 \<le> length stream \<and> length stream = 4 + from_bytes (take 4 stream) \<and>
    loads lib (drop 4 stream) = Inr (JObj d) \<and>
    dict_get d ''action'' = Some (JStr a) \<and>
    action_of_value a = None
    \<longrightarrow> handle_client lib handlers stream s =
          (write_error lib
             (''Error del servidor: '' @ validation_message lib ''TCPRequest'' (JObj d)), s))"
proof (intro conjI impI)
  assume h: "4 \<le> length stream \<and> length stream = 4 + from_bytes (take 4 stream) \<and>
    decode_message lib stream = Inr (Request req) \<and>
    handlers (action req) = None \<and>
    encode_message lib
      (Response (create_error (unsupported_action (action req)) (request_id req))) = Inr out"
  then have fr: "4 \<le> length stream" "length stream = 4 + from_bytes (take 4 stream)"
    by simp_all
  from h show "handle_client lib handlers stream s = ([out], s)"
    unfolding handle_client_frame [OF fr]
    by (simp add: process_request_unregistered)
next
  assume h: "4 \<le> length stream \<and> length stream = 4 + from_bytes (take 4 stream) \<and>
    loads lib (drop 4 stream) = Inr (JObj d) \<and>
    dict_get d ''action'' = Some (JStr a) \<and>
    action_of_value a = None"
  then have fr: "4 \<le> length stream" "length stream = 4 + from_bytes (take 4 stream)"
    by simp_all
  from h have "decode_message lib stream =
      Inl (ValidationError (validation_message lib ''TCPRequest'' (JObj d)))"
    using decode_invalid_action [of stream lib d a] by blast
  then show "handle_client lib handlers stream s =
          (write_error lib
             (''Error del servidor: '' @ validation_message lib ''TCPRequest'' (JObj d)), s)"
    unfolding handle_client_frame [OF fr] by simp
qed

text \<open>Witness for C4: a \<open>get_topics\<close> frame and a \<open>does_not_exist\<close> frame.\<close>

theorem unregistered_action_error_witness:
  "(4 \<le> length get_topics_frame \<and>
    length get_topics_frame = 4 + from_bytes (take 4 get_topics_frame) \<and>
    decode_message compact_json get_topics_frame = Inr (Request get_topics_request) \<and>
    (create_tcp_server :: TCPAction \<rightharpoonup> (decimal, unit) handler)
       (action get_topics_request) = None \<and>
    encode_message compact_json
       (Response (create_error (unsupported_action (action get_topics_request))
          (request_id get_topics_request))) =
      Inr (raw_frame (JObj [(''status'', JStr ''error''), (''result'', JNull),
             (''error'', JStr (''Acci'' @ [CHR 0xC3, CHR 0xB3] @ ''n no soportada: get_topics'')),
             (''request_id'', JStr ''r7'')]))) \<and>
   handle_client compact_json create_tcp_server get_topics_frame () =
     ([raw_frame (JObj [(''status'', JStr ''error''), (''result'', JNull),
         (''error'', JStr (''Acci'' @ [CHR 0xC3, CHR 0xB3] @ ''n no soportada: get_topics'')),
         (''request_id'', JStr ''r7'')])], ()) \<and>
   (4 \<le> length does_not_exist_frame \<and>
    length does_not_exist_frame = 4 + from_bytes (take 4 does_not_exist_frame) \<and>
    loads compact_json (drop 4 does_not_exist_frame) =
      Inr (JObj [(''action'', JStr ''does_not_exist''), (''data'', JObj []),
                 (''request_id'', JStr ''r9'')]) \<and>
    dict_get [(''action'', JStr ''does_not_exist''), (''data'', JObj []),
              (''request_id'', (JStr ''r9'' :: decimal json))] ''action''
      = Some (JStr ''does_not_exist'') \<and>
    action_of_value ''does_not_exist'' = None) \<and>
   handle_client compact_json create_tcp_server does_not_exist_frame () =
     (write_error compact_json
        (''Error del servidor: '' @
         validation_message compact_json ''TCPRequest''
           (JObj [(''action'', JStr ''does_not_exist''), (''data'', JObj []),
                  (''request_id'', JStr ''r9'')])), ())"
  using get_topics_frame_ok does_not_exist_frame_ok
    unregistered_action_error
      [where stream = get_topics_frame and lib = compact_json and req = get_topics_request
         and handlers = create_tcp_server and s = "()"]
    unregistered_action_error
      [where stream = does_not_exist_frame and lib = compact_json
         and d = "[(''action'', JStr ''does_not_exist''), (''data'', JObj []),
                   (''request_id'', JStr ''r9'')]"
         and a = "''does_not_exist''" and s = "()" and handlers = create_tcp_server]
  by blast

text \<open>
  Counterexample for C4 as stated: the action string "does_not_exist" is answered with
  the message of the validation error, not with "Acci\<acute>on no soportada: does_not_exist".
\<close>

theorem does_not_exist_response:
  "handle_client compact_json create_tcp_server does_not_exist_frame () =
     ([raw_frame (JObj [(''status'', JStr ''error''), (''result'', JNull),
         (''error'', JStr ''Error del servidor: 1 validation error for TCPRequest''),
         (''request_id'', JNull)])], ()) \<and>
   handle_client compact_json create_tcp_server does_not_exist_frame () \<noteq>
     ([raw_frame (JObj [(''status'', JStr ''error''), (''result'', JNull),
         (''error'',
          JStr (''Acci'' @ [CHR 0xC3, CHR 0xB3] @ ''n no soportada: does_not_exist'')),
         (''request_id'', JStr ''r9'')])], ())"
  by code_simp


section \<open>cluster_documents: too few documents\<close>

lemma get_embeddings_by_user_open:
  "connection_pool s \<Longrightarrow>
     get_embeddings_by_user s user_id =
       Inr (map fst (embeddings_of_user s user_id), map snd (embeddings_of_user s user_id))"
  by (simp add: get_embeddings_by_user_def get_connection_def Let_def)

text \<open>
  C5. With the connection pool initialised, \<open>cluster_documents\<close> returns
  \<open>success: false\<close> with the "No se encontraron documentos" message when the owner has no
  stored embedding, and \<open>success: false\<close> with the "Se necesitan al menos 3 documentos"
  message when the owner has one or two; the test is on the owner's full set, whatever
  \<open>document_ids\<close> is, no library is called and the store is returned as it was.
\<close>

theorem cluster_documents_too_few:
  "(connection_pool s \<and> length (embeddings_of_user s user_id) = 0 \<longrightarrow>
      cluster_documents x user_id document_ids force_recluster s =
        ([(''success'', JBool False),
          (''error'', JStr (''No se encontraron documentos para user_id='' @ user_id))], s)) \<and>
   (connection_pool s \<and> 0 < length (embeddings_of_user s user_id) \<and>
    length (embeddings_of_user s user_id) < 3 \<longrightarrow>
      cluster_documents x user_id document_ids force_recluster s =
        ([(''success'', JBool False),
          (''error'',
           JStr (''Se necesitan al menos 3 documentos para clustering (encontrados: '' @
                 str_nat (length (embeddings_of_user s user_id)) @ '')''))], s))"
  by (simp add: cluster_documents_def cluster_documents_try_def catch_def
        get_embeddings_by_user_open no_documents_def insufficient_documents_def
      del: str_nat.simps)

lemma small_store_facts:
  "connection_pool small_store \<and> 0 < length (embeddings_of_user small_store ''alice'') \<and>
   length (embeddings_of_user small_store ''alice'') < 3 \<and>
   str_nat (length (embeddings_of_user small_store ''alice'')) = ''2'' \<and>
   connection_pool fresh_store \<and> length (embeddings_of_user fresh_store ''carol'') = 0"
  by code_simp

text \<open>Witness for C5: a user with no document and a user with two.\<close>

theorem cluster_documents_too_few_witness:
  "(connection_pool fresh_store \<and> length (embeddings_of_user fresh_store ''carol'') = 0) \<and>
   cluster_documents example_ext ''carol'' (Some [''a1'']) True fresh_store =
     ([(''success'', JBool False),
       (''error'', JStr ''No se encontraron documentos para user_id=carol'')], fresh_store) \<and>
   (connection_pool small_store \<and> 0 < length (embeddings_of_user small_store ''alice'') \<and>
    length (embeddings_of_user small_store ''alice'') < 3) \<and>
   cluster_documents example_ext ''alice'' None False small_store =
     ([(''success'', JBool False),
       (''error'',
        JStr ''Se necesitan al menos 3 documentos para clustering (encontrados: 2)'')],
      small_store)"
proof -
  have a: "cluster_documents example_ext ''carol'' (Some [''a1'']) True fresh_store =
     ([(''success'', JBool False),
       (''error'', JStr ''No se encontraron documentos para user_id=carol'')], fresh_store)"
    using small_store_facts
      cluster_documents_too_few [of fresh_store "''carol''" example_ext "Some [''a1'']" True]
    by simp
  have n: "str_nat (length (embeddings_of_user small_store ''alice'')) = ''2''"
    using small_store_facts by blast
  have "cluster_documents example_ext ''alice'' None False small_store =
     ([(''success'', JBool False),
       (''error'',
        JStr (''Se necesitan al menos 3 documentos para clustering (encontrados: '' @
              str_nat (length (embeddings_of_user small_store ''alice'')) @ '')''))],
      small_store)"
    using small_store_facts
      cluster_documents_too_few [of small_store "''alice''" example_ext None False]
    by blast
  then have b: "cluster_documents example_ext ''alice'' None False small_store =
     ([(''success'', JBool False),
       (''error'',
        JStr ''Se necesitan al menos 3 documentos para clustering (encontrados: 2)'')],
      small_store)"
    unfolding n by simp
  show ?thesis using small_store_facts a b by blast
qed


section \<open>cluster_documents: a subset below three documents\<close>










section \<open>Exceptions inside a use case\<close>

lemma process_request_handler:
  "handlers (action req) = Some h \<Longrightarrow> h (data req) s = (Inr res, s') \<Longrightarrow>
     process_request handlers req s = (success res (request_id req), s')"
  by (simp add: process_request_def)

lemma exception_facts:
  "cluster_documents_try failing_ext (arg_str (data cluster_request) ''user_id'')
      (arg_str_list (data cluster_request) ''document_ids'')
      (arg_bool (data cluster_request) ''force_recluster'' False) fresh_store =
     (Inl (ValueError ''n_neighbors must be greater than 1''), fresh_store) \<and>
   update_visualization_try example_ext (arg_str (data visualization_request) ''user_id'')
      False closed_store = (Inl pool_not_initialised, closed_store) \<and>
   recommend_similar_try example_ext (arg_str (data recommend_request) ''document_id'')
      (arg_int (data recommend_request) ''top_k'' 5) closed_store =
     (Inl pool_not_initialised, closed_store) \<and>
   str_exn pool_not_initialised =
     ''Pool de conexiones no inicializado. Llamar a init_connection_pool() primero''"
  by code_simp

lemma registry_facts:
  "register_tcp_handlers x create_tcp_server (action cluster_request)
     = Some (handle_cluster_documents x) \<and>
   register_tcp_handlers x create_tcp_server (action visualization_request)
     = Some (handle_get_visualization x) \<and>
   register_tcp_handlers x create_tcp_server (action recommend_request)
     = Some (handle_recommend_similar x)"
  by (simp add: register_tcp_handlers_def cluster_request_def visualization_request_def
        recommend_request_def)

text \<open>
  C8. When the body of a use case raises an exception \<open>e\<close> (anywhere inside its \<open>try\<close>), the
  handler returns normally and \<open>process_request\<close> answers with the envelope of status
  "success" whose result is \<open>{success: false, error: str(e)}\<close>; no error response is built.
  This holds for the cluster, update-visualization, get-visualization and
  recommend-similar handlers.
\<close>

theorem use_case_exception_in_success_envelope:
  "(handlers (action req) = Some (handle_cluster_documents x) \<and>
    cluster_documents_try x (arg_str (data req) ''user_id'')
      (arg_str_list (data req) ''document_ids'')
      (arg_bool (data req) ''force_recluster'' False) s = (Inl e, s')
    \<longrightarrow> process_request handlers req s =
          (\<lparr>status = ''success'',
            result = Some [(''success'', JBool False), (''error'', JStr (str_exn e))],
            error = None, response_request_id = request_id req\<rparr>, s')) \<and>
   (handlers (action req) = Some (handle_update_visualization x) \<and>
    update_visualization_try x (arg_str (data req) ''user_id'')
      (arg_bool (data req) ''force_update'' False) s = (Inl e, s')
    \<longrightarrow> process_request handlers req s =
          (\<lparr>status = ''success'',
            result = Some [(''success'', JBool False), (''error'', JStr (str_exn e))],
            error = None, response_request_id = request_id req\<rparr>, s')) \<and>
   (handlers (action req) = Some (handle_get_visualization x) \<and>
    update_visualization_try x (arg_str (data req) ''user_id'') False s = (Inl e, s')
    \<longrightarrow> process_request handlers req s =
          (\<lparr>status = ''success'',
            result = Some [(''success'', JBool False), (''error'', JStr (str_exn e))],
            error = None, response_request_id = request_id req\<rparr>, s')) \<and>
   (handlers (action req) = Some (handle_recommend_similar x) \<and>
    recommend_similar_try x (arg_str (data req) ''document_id'')
      (arg_int (data req) ''top_k'' 5) s = (Inl e, s')
    \<longrightarrow> process_request handlers req s =
          (\<lparr>status = ''success'',
            result = Some [(''success'', JBool False), (''error'', JStr (str_exn e))],
            error = None, response_request_id = request_id req\<rparr>, s'))"
  by (simp add: process_request_def handle_cluster_documents_def
        handle_update_visualization_def handle_get_visualization_def
        handle_recommend_similar_def cluster_documents_def update_visualization_def
        recommend_similar_def catch_def failure_def success_def)

text \<open>
  Witness for C8: UMAP raises inside the cluster use case; the connection pool is missing
  in the visualization and recommendation use cases.
\<close>

theorem use_case_exception_in_success_envelope_witness:
  "(register_tcp_handlers failing_ext create_tcp_server (action cluster_request)
      = Some (handle_cluster_documents failing_ext) \<and>
    cluster_documents_try failing_ext (arg_str (data cluster_request) ''user_id'')
      (arg_str_list (data cluster_request) ''document_ids'')
      (arg_bool (data cluster_request) ''force_recluster'' False) fresh_store =
     (Inl (ValueError ''n_neighbors must be greater than 1''), fresh_store)) \<and>
   process_request (register_tcp_handlers failing_ext create_tcp_server) cluster_request
      fresh_store =
     (\<lparr>status = ''success'',
       result = Some [(''success'', JBool False),
                      (''error'', JStr ''n_neighbors must be greater than 1'')],
       error = None, response_request_id = Some ''r1''\<rparr>, fresh_store) \<and>
   (register_tcp_handlers example_ext create_tcp_server (action visualization_request)
      = Some (handle_get_visualization example_ext) \<and>
    update_visualization_try example_ext (arg_str (data visualization_request) ''user_id'')
      False closed_store = (Inl pool_not_initialised, closed_store)) \<and>
   process_request (register_tcp_handlers example_ext create_tcp_server)
      visualization_request closed_store =
     (\<lparr>status = ''success'',
       result = Some [(''success'', JBool False),
                      (''error'', JStr ''Pool de conexiones no inicializado. Llamar a init_connection_pool() primero'')],
       error = None, response_request_id = None\<rparr>, closed_store) \<and>
   (register_tcp_handlers example_ext create_tcp_server (action recommend_request)
      = Some (handle_recommend_similar example_ext) \<and>
    recommend_similar_try example_ext (arg_str (data recommend_request) ''document_id'')
      (arg_int (data recommend_request) ''top_k'' 5) closed_store =
     (Inl pool_not_initialised, closed_store)) \<and>
   process_request (register_tcp_handlers example_ext create_tcp_server)
      recommend_request closed_store =
     (\<lparr>status = ''success'',
       result = Some [(''success'', JBool False),
                      (''error'', JStr ''Pool de conexiones no inicializado. Llamar a init_connection_pool() primero'')],
       error = None, response_request_id = None\<rparr>, closed_store)"
proof -
  note t = use_case_exception_in_success_envelope
  have r1: "request_id cluster_request = Some ''r1''"
    and r2: "request_id visualization_request = None"
    and r3: "request_id recommend_request = None"
    by (simp_all add: cluster_request_def visualization_request_def recommend_request_def)
  have m: "str_exn pool_not_initialised =
     ''Pool de conexiones no inicializado. Llamar a init_connection_pool() primero''"
    using exception_facts by blast
  have a: "process_request (register_tcp_handlers failing_ext create_tcp_server) cluster_request
      fresh_store =
     (\<lparr>status = ''success'',
       result = Some [(''success'', JBool False),
                      (''error'', JStr ''n_neighbors must be greater than 1'')],
       error = None, response_request_id = Some ''r1''\<rparr>, fresh_store)"
    using t [where handlers = "register_tcp_handlers failing_ext create_tcp_server"
        and req = cluster_request and x = failing_ext and s = fresh_store and s' = fresh_store
        and e = "ValueError ''n_neighbors must be greater than 1''"]
      exception_facts registry_facts [of failing_ext] r1
    by simp
  have b: "process_request (register_tcp_handlers example_ext create_tcp_server)
      visualization_request closed_store =
     (\<lparr>status = ''success'',
       result = Some [(''success'', JBool False),
                      (''error'', JStr ''Pool de conexiones no inicializado. Llamar a init_connection_pool() primero'')],
       error = None, response_request_id = None\<rparr>, closed_store)"
    using t [where handlers = "register_tcp_handlers example_ext create_tcp_server"
        and req = visualization_request and x = example_ext and s = closed_store
        and s' = closed_store and e = pool_not_initialised]
      exception_facts registry_facts [of example_ext] r2 m
    by simp
  have c: "process_request (register_tcp_handlers example_ext create_tcp_server)
      recommend_request closed_store =
     (\<lparr>status = ''success'',
       result = Some [(''success'', JBool False),
                      (''error'', JStr ''Pool de conexiones no inicializado. Llamar a init_connection_pool() primero'')],
       error = None, response_request_id = None\<rparr>, closed_store)"
    using t [where handlers = "register_tcp_handlers example_ext create_tcp_server"
        and req = recommend_request and x = example_ext and s = closed_store
        and s' = closed_store and e = pool_not_initialised]
      exception_facts registry_facts [of example_ext] r3 m
    by simp
  show ?thesis
    using a b c exception_facts registry_facts [of failing_ext] registry_facts [of example_ext]
    by blast
qed


section \<open>get_visualization\<close>

lemma left_join_member: "x \<in> set xs \<Longrightarrow> \<exists>y. (x, y) \<in> set (left_join xs m)"
proof -
  assume x: "x \<in> set xs"
  have "\<exists>y. (x, y) \<in> set (case m x of [] \<Rightarrow> [(x, None)] | ys \<Rightarrow> map (\<lambda>y. (x, Some y)) ys)"
    by (cases "m x") auto
  with x show ?thesis by (auto simp add: left_join_def)
qed

lemma get_visualization_nonempty:
  assumes "connection_pool s" and "r \<in> set (ml_visualizations s)" and "vz_user_id r = user_id"
  shows "\<exists>viz. get_visualization s user_id = Inr viz \<and> viz \<noteq> []"
proof -
  let ?j1 = "left_join (ml_visualizations s)
               (\<lambda>v. filter (\<lambda>c. vz_cluster_id v = cl_cluster_id c \<and>
                                  cl_user_id c = vz_user_id v) (ml_clusters s))"
  let ?j2 = "left_join ?j1 (\<lambda>(v, c). filter (\<lambda>d. vz_document_id v = fst d) (documents s))"
  from left_join_member [OF assms(2)] obtain c where c: "(r, c) \<in> set ?j1" by blast
  from left_join_member [OF c] obtain d where d: "((r, c), d) \<in> set ?j2" by blast
  have "((r, c), d) \<in> set (filter (\<lambda>((v, c), d). vz_user_id v = user_id) ?j2)"
    using d assms(3) by simp
  then have "filter (\<lambda>((v, c), d). vz_user_id v = user_id) ?j2 \<noteq> []"
    by (metis empty_iff list.set(1))
  then show ?thesis
    using assms(1) by (simp add: get_visualization_def get_connection_def)
qed

lemma upsert_visualization_has_new:
  "\<exists>r \<in> set (upsert_visualization rows new).
      vz_user_id r = vz_user_id new \<and> vz_document_id r = vz_document_id new"
  by (auto simp add: upsert_visualization_def list_ex_iff)

lemma upsert_visualization_keeps:
  assumes "\<exists>r \<in> set rows. vz_user_id r = u \<and> vz_document_id r = d"
  shows "\<exists>r \<in> set (upsert_visualization rows new). vz_user_id r = u \<and> vz_document_id r = d"
proof -
  from assms obtain r where r: "r \<in> set rows" "vz_user_id r = u" "vz_document_id r = d"
    by blast
  show ?thesis
  proof (cases "vz_user_id r = vz_user_id new \<and> vz_document_id r = vz_document_id new")
    case True
    with r upsert_visualization_has_new [of rows new] show ?thesis by auto
  next
    case False
    with r show ?thesis
      by (auto simp add: upsert_visualization_def list_ex_iff intro!: bexI [of _ r])
  qed
qed

lemma foldl_upsert_visualization_keeps:
  "\<exists>r \<in> set rows. vz_user_id r = u \<and> vz_document_id r = d \<Longrightarrow>
     \<exists>r \<in> set (foldl upsert_visualization rows news). vz_user_id r = u \<and> vz_document_id r = d"
proof (induction news arbitrary: rows)
  case Nil
  then show ?case by simp
next
  case (Cons n ns)
  from upsert_visualization_keeps [OF Cons.prems]
  have "\<exists>r \<in> set (upsert_visualization rows n). vz_user_id r = u \<and> vz_document_id r = d" .
  from Cons.IH [OF this] show ?case by simp
qed

lemma foldl_upsert_visualization_has:
  "new \<in> set news \<Longrightarrow>
     \<exists>r \<in> set (foldl upsert_visualization rows news).
        vz_user_id r = vz_user_id new \<and> vz_document_id r = vz_document_id new"
proof (induction news arbitrary: rows)
  case Nil
  then show ?case by simp
next
  case (Cons n ns)
  show ?case
  proof (cases "new = n")
    case True
    from foldl_upsert_visualization_keeps [OF upsert_visualization_has_new [of rows n]]
    show ?thesis using True by simp
  next
    case False
    with Cons.prems have "new \<in> set ns" by simp
    from Cons.IH [OF this] show ?thesis by simp
  qed
qed

lemma get_visualization_frame:
  "get_visualization (s\<lparr>ml_visualizations := rows\<rparr>) u = Inr viz \<Longrightarrow>
   get_visualization s u = Inr viz' \<Longrightarrow> viz \<noteq> viz' \<Longrightarrow> rows \<noteq> ml_visualizations s"
  by auto

lemma generate_visualization_writes:
  assumes pool: "connection_pool s"
    and docs: "embeddings_of_user s user_id \<noteq> []"
    and umap: "umap_visualization x (map snd (embeddings_of_user s user_id)) = Inr coordinates_2d"
    and len: "length coordinates_2d = length (embeddings_of_user s user_id)"
  shows "\<exists>s' viz. generate_visualization x user_id s = (Inr (format_response user_id viz), s') \<and>
           get_visualization s' user_id = Inr viz \<and> viz \<noteq> [] \<and>
           (\<exists>labels. save_visualization user_id (map fst (embeddings_of_user s user_id))
                        coordinates_2d labels s = Inr s')"
proof -
  let ?ids = "map fst (embeddings_of_user s user_id)"
  obtain labels where
    lab: "(if sort_key cl_cluster_id (filter (\<lambda>r. cl_user_id r = user_id) (ml_clusters s)) \<noteq> []
           then map_sum id
                  (\<lambda>cluster_map. map (\<lambda>doc_id. case cluster_map doc_id of
                                                     None \<Rightarrow> - 1 | Some n \<Rightarrow> n) ?ids)
                  (get_document_cluster_labels s user_id ?ids)
           else Inr (replicate (length ?ids) (- 1))) = Inr labels"
    and ll: "length labels = length ?ids"
    using pool
    by (cases "sort_key cl_cluster_id (filter (\<lambda>r. cl_user_id r = user_id) (ml_clusters s)) = []")
       (simp_all add: get_document_cluster_labels_def get_connection_def Let_def)
  let ?news = "map (\<lambda>(doc_id, (x, y), cluster_id).
                      \<lparr>vz_user_id = user_id, vz_document_id = doc_id, vz_x = x, vz_y = y,
                       vz_cluster_id = cluster_id\<rparr>)
                 (zip ?ids (zip coordinates_2d labels))"
  let ?rows = "foldl upsert_visualization (ml_visualizations s) ?news"
  let ?s' = "s\<lparr>ml_visualizations := ?rows\<rparr>"
  have save: "save_visualization user_id ?ids coordinates_2d labels s = Inr ?s'"
    using pool by (simp add: save_visualization_def get_connection_def)
  have "length (zip ?ids (zip coordinates_2d labels)) = length ?ids"
    using len ll by simp
  with docs have "?news \<noteq> []" by auto
  then obtain new where new: "new \<in> set ?news" by (meson last_in_set)
  then have nu: "vz_user_id new = user_id" by auto
  from foldl_upsert_visualization_has [OF new, of "ml_visualizations s"] nu
  obtain r where r: "r \<in> set ?rows" "vz_user_id r = user_id" by auto
  have pool': "connection_pool ?s'" using pool by simp
  from get_visualization_nonempty [OF pool', of r user_id] r
  obtain viz where viz: "get_visualization ?s' user_id = Inr viz" "viz \<noteq> []" by auto
  have "generate_visualization x user_id s = (Inr (format_response user_id viz), ?s')"
    using docs
    by (simp add: generate_visualization_def get_embeddings_by_user_open [OF pool] umap
          get_clusters_by_user_def get_connection_def pool lab save viz(1)
        del: get_visualization_def)
  with viz save show ?thesis by blast
qed


lemma arg_str_user: "dict_get d k = Some (JStr v) \<Longrightarrow> arg_str d k = v"
  by (simp add: arg_str_def)

lemma visualization_facts:
  "dict_get (data visualization_request) ''user_id'' = Some (JStr ''alice'') \<and>
   connection_pool fresh_store \<and> get_visualization fresh_store ''alice'' = Inr [] \<and>
   embeddings_of_user fresh_store ''alice'' \<noteq> [] \<and>
   umap_visualization example_ext (map snd (embeddings_of_user fresh_store ''alice''))
     = Inr [(1, 0), (0, 1), (1, 0)] \<and>
   length [(1, 0), (0, 1), (1 :: real, 0 :: real)]
     = length (embeddings_of_user fresh_store ''alice'') \<and>
   get_visualization visualized_store ''alice'' = Inr alice_points \<and> alice_points \<noteq> []"
  by code_simp

lemma no_documents_facts:
  "dict_get [(''user_id'', (JStr ''carol'' :: real json))] ''user_id'' = Some (JStr ''carol'') \<and>
   connection_pool fresh_store \<and> get_visualization fresh_store ''carol'' = Inr [] \<and>
   embeddings_of_user fresh_store ''carol'' = []"
  by code_simp

text \<open>
  C9 (amended). The \<open>get_visualization\<close> handler runs the update-visualization use case
  with \<open>force_update = False\<close>. When no visualization is stored for the owner, the owner has
  at least one stored embedding and the 2-D reduction returns one point per document, the
  call saves a point set and returns the points read back, so the store changes. When a
  visualization is stored it is returned and the store is unchanged; when the owner has
  no stored embedding the call returns the "no documents" failure and the store is
  unchanged as well.
\<close>

theorem get_visualization_effect:
  assumes "dict_get d ''user_id'' = Some (JStr user_id)"
  shows
    "handle_get_visualization x d s =
       (Inr (fst (update_visualization x user_id False s)),
        snd (update_visualization x user_id False s)) \<and>
     (connection_pool s \<and> get_visualization s user_id = Inr [] \<and>
      embeddings_of_user s user_id \<noteq> [] \<and>
      umap_visualization x (map snd (embeddings_of_user s user_id)) = Inr coordinates_2d \<and>
      length coordinates_2d = length (embeddings_of_user s user_id)
      \<longrightarrow> (\<exists>s' viz labels.
             handle_get_visualization x d s = (Inr (format_response user_id viz), s') \<and>
             save_visualization user_id (map fst (embeddings_of_user s user_id))
               coordinates_2d labels s = Inr s' \<and>
             get_visualization s' user_id = Inr viz \<and> viz \<noteq> [] \<and>
             ml_visualizations s' \<noteq> ml_visualizations s)) \<and>
     (get_visualization s user_id = Inr existing_viz \<and> existing_viz \<noteq> []
      \<longrightarrow> handle_get_visualization x d s = (Inr (format_response user_id existing_viz), s)) \<and>
     (connection_pool s \<and> get_visualization s user_id = Inr [] \<and>
      embeddings_of_user s user_id = []
      \<longrightarrow> handle_get_visualization x d s =
            (Inr [(''success'', JBool False),
                  (''error'', JStr (''No se encontraron documentos para user_id='' @ user_id))],
             s))"
proof -
  note u = arg_str_user [OF assms]
  have h: "handle_get_visualization x d s =
       (Inr (fst (update_visualization x user_id False s)),
        snd (update_visualization x user_id False s))"
    by (simp add: handle_get_visualization_def u split: prod.split)
  have b: "connection_pool s \<and> get_visualization s user_id = Inr [] \<and>
      embeddings_of_user s user_id \<noteq> [] \<and>
      umap_visualization x (map snd (embeddings_of_user s user_id)) = Inr coordinates_2d \<and>
      length coordinates_2d = length (embeddings_of_user s user_id)
      \<longrightarrow> (\<exists>s' viz labels.
             handle_get_visualization x d s = (Inr (format_response user_id viz), s') \<and>
             save_visualization user_id (map fst (embeddings_of_user s user_id))
               coordinates_2d labels s = Inr s' \<and>
             get_visualization s' user_id = Inr viz \<and> viz \<noteq> [] \<and>
             ml_visualizations s' \<noteq> ml_visualizations s)"
  proof
    assume a: "connection_pool s \<and> get_visualization s user_id = Inr [] \<and>
      embeddings_of_user s user_id \<noteq> [] \<and>
      umap_visualization x (map snd (embeddings_of_user s user_id)) = Inr coordinates_2d \<and>
      length coordinates_2d = length (embeddings_of_user s user_id)"
    then have pool: "connection_pool s" and none: "get_visualization s user_id = Inr []"
      and docs: "embeddings_of_user s user_id \<noteq> []"
      and umap: "umap_visualization x (map snd (embeddings_of_user s user_id)) = Inr coordinates_2d"
      and len: "length coordinates_2d = length (embeddings_of_user s user_id)"
      by blast+
    from generate_visualization_writes [OF pool docs umap len] obtain s' viz labels
      where g: "generate_visualization x user_id s = (Inr (format_response user_id viz), s')"
        and v: "get_visualization s' user_id = Inr viz" "viz \<noteq> []"
        and sv: "save_visualization user_id (map fst (embeddings_of_user s user_id))
                   coordinates_2d labels s = Inr s'"
      by blast
    have run: "handle_get_visualization x d s = (Inr (format_response user_id viz), s')"
      unfolding h
      by (simp add: update_visualization_def update_visualization_try_def none g catch_def)
    have "ml_visualizations s' \<noteq> ml_visualizations s"
    proof
      assume eq: "ml_visualizations s' = ml_visualizations s"
      from sv pool have "s' = s\<lparr>ml_visualizations := ml_visualizations s'\<rparr>"
        by (auto simp add: save_visualization_def get_connection_def)
      with eq have "s' = s" by simp
      with v none show False by simp
    qed
    with run v sv show "\<exists>s' viz labels.
             handle_get_visualization x d s = (Inr (format_response user_id viz), s') \<and>
             save_visualization user_id (map fst (embeddings_of_user s user_id))
               coordinates_2d labels s = Inr s' \<and>
             get_visualization s' user_id = Inr viz \<and> viz \<noteq> [] \<and>
             ml_visualizations s' \<noteq> ml_visualizations s"
      by blast
  qed
  have c: "get_visualization s user_id = Inr existing_viz \<and> existing_viz \<noteq> []
      \<longrightarrow> handle_get_visualization x d s = (Inr (format_response user_id existing_viz), s)"
    unfolding h
    by (simp add: update_visualization_def update_visualization_try_def catch_def)
  have e: "connection_pool s \<and> get_visualization s user_id = Inr [] \<and>
      embeddings_of_user s user_id = []
      \<longrightarrow> handle_get_visualization x d s =
            (Inr [(''success'', JBool False),
                  (''error'', JStr (''No se encontraron documentos para user_id='' @ user_id))],
             s)"
    unfolding h
    by (simp add: update_visualization_def update_visualization_try_def catch_def
          generate_visualization_def get_embeddings_by_user_open no_documents_def)
  show ?thesis using h b c e by blast
qed

text \<open>
  Witness for C9: \<open>alice\<close> before any visualization, and after one.
\<close>

theorem get_visualization_effect_witness:
  "dict_get (data visualization_request) ''user_id'' = Some (JStr ''alice'') \<and>
   (connection_pool fresh_store \<and> get_visualization fresh_store ''alice'' = Inr [] \<and>
    embeddings_of_user fresh_store ''alice'' \<noteq> [] \<and>
    umap_visualization example_ext (map snd (embeddings_of_user fresh_store ''alice''))
      = Inr [(1, 0), (0, 1), (1, 0)] \<and>
    length [(1, 0), (0, 1), (1 :: real, 0 :: real)]
      = length (embeddings_of_user fresh_store ''alice'')) \<and>
   (\<exists>s' viz labels.
      handle_get_visualization example_ext (data visualization_request) fresh_store
        = (Inr (format_response ''alice'' viz), s') \<and>
      save_visualization ''alice'' (map fst (embeddings_of_user fresh_store ''alice''))
        [(1, 0), (0, 1), (1, 0)] labels fresh_store = Inr s' \<and>
      get_visualization s' ''alice'' = Inr viz \<and> viz \<noteq> [] \<and>
      ml_visualizations s' \<noteq> ml_visualizations fresh_store) \<and>
   (get_visualization visualized_store ''alice'' = Inr alice_points \<and> alice_points \<noteq> []) \<and>
   handle_get_visualization example_ext (data visualization_request) visualized_store
     = (Inr (format_response ''alice'' alice_points), visualized_store)"
proof -
  have u: "dict_get (data visualization_request) ''user_id'' = Some (JStr ''alice'')"
    using visualization_facts by blast
  note t1 = get_visualization_effect [OF u, where x = example_ext and s = fresh_store
      and coordinates_2d = "[(1, 0), (0, 1), (1, 0)]"]
  note t2 = get_visualization_effect [OF u, where x = example_ext and s = visualized_store
      and existing_viz = alice_points]
  have a: "\<exists>s' viz labels.
      handle_get_visualization example_ext (data visualization_request) fresh_store
        = (Inr (format_response ''alice'' viz), s') \<and>
      save_visualization ''alice'' (map fst (embeddings_of_user fresh_store ''alice''))
        [(1, 0), (0, 1), (1, 0)] labels fresh_store = Inr s' \<and>
      get_visualization s' ''alice'' = Inr viz \<and> viz \<noteq> [] \<and>
      ml_visualizations s' \<noteq> ml_visualizations fresh_store"
    using t1 visualization_facts by blast
  have b: "handle_get_visualization example_ext (data visualization_request) visualized_store
     = (Inr (format_response ''alice'' alice_points), visualized_store)"
    using t2 visualization_facts by blast
  show ?thesis using visualization_facts a b by blast
qed

text \<open>
  Counterexample for C9 as stated: for an owner without stored embeddings no visualization
  is stored, and still the call writes nothing and returns a failure.
\<close>

theorem get_visualization_without_documents:
  "get_visualization fresh_store ''carol'' = Inr [] \<and>
   handle_get_visualization example_ext [(''user_id'', JStr ''carol'')] fresh_store =
     (Inr [(''success'', JBool False),
           (''error'', JStr ''No se encontraron documentos para user_id=carol'')],
      fresh_store)"
  by code_simp


section \<open>The cluster set after a run\<close>

lemma row_info_update:
  "cl_cluster_id r = ci_cluster_id c \<Longrightarrow>
     row_info (r\<lparr>cl_label := ci_label c, cl_size := ci_size c,
                 cl_keywords := ci_keywords c, cl_centroid := ci_centroid c\<rparr>) = c"
  by (simp add: row_info_def)





















section \<open>Assignments and the owner of their cluster\<close>



section \<open>Recommendations\<close>

text \<open>
  C1. On a cache miss the recommendations should be the \<open>top_k\<close> most similar other
  documents of the collection. The query orders by document before distance, so
  \<open>LIMIT top_k\<close> keeps the first documents in the order of their ids. Here the base
  document \<open>a1\<close> has similarity 0 to \<open>a2\<close> and similarity 1 to \<open>a3\<close>; with \<open>top_k = 1\<close> the
  call returns and stores \<open>a2\<close>.
\<close>

theorem recommendation_not_most_similar:
  "map (\<lambda>e. (the (emb_document e),
              1 - cosine_distance example_ext (emb_embedding e) [1, 0]))
     (filter (\<lambda>e. emb_collection_id e = ''c1'' \<and> emb_document e \<noteq> Some ''a1'')
        (langchain_pg_embedding fresh_store)) =
     [(''a2'', 0), (''a3'', 1)] \<and>
   get_recommendations fresh_store ''a1'' 1 = Inr [] \<and>
   fst (recommend_similar example_ext ''a1'' 1 fresh_store) =
     [(''success'', JBool True), (''document_id'', JStr ''a1''),
      (''recommendations'',
       JArr [JObj [(''document_id'', JStr ''a2''), (''filename'', JStr ''report_a.pdf''),
                   (''similarity_score'', JFloat 0)]])] \<and>
   ml_recommendations (snd (recommend_similar example_ext ''a1'' 1 fresh_store)) =
     [\<lparr>rc_document_id = ''a1'', rc_recommended_document_id = ''a2'',
       rc_similarity_score = 0, rc_rank = 1\<rparr>]"
  by code_simp


end
